theory Spec2Isabelle
  imports Complex_Main
begin

section \<open>Dimension vectors\<close>

text \<open>
  \<^verbatim>\<open>template <TYPENAMES> class Quantity\<close> takes eight \<^verbatim>\<open>std::ratio\<close> types, in the order
  Mass, Length, Time, Current, Angle, Temperature, Luminosity, Moles (units.hpp, lines 13-16).
  Every \<^verbatim>\<open>std::ratio\<close> the library forms is a reduced fraction (\<^verbatim>\<open>std::ratio<n>\<close> in
  \<^verbatim>\<open>NEW_QUANTITY\<close>, and the results of \<^verbatim>\<open>std::ratio_add\<close>, \<^verbatim>\<open>ratio_subtract\<close>,
  \<^verbatim>\<open>ratio_multiply\<close> and \<^verbatim>\<open>ratio_divide\<close>), so an exponent is a \<^typ>\<open>rat\<close>, two quantity types
  are the same type exactly when their eight exponents are equal, and \<^verbatim>\<open>std::ratio_equal\<close>
  is equality. The exponents are unbounded here: instantiations whose numerator or
  denominator would overflow \<^verbatim>\<open>intmax_t\<close>, which \<^verbatim>\<open>std::ratio\<close> rejects, are outside the
  model. The field for \<^verbatim>\<open>Length\<close> is called \<open>length_dim\<close>, since \<open>length\<close> is the length
  of a list.
\<close>

record dimvec =
  mass :: rat
  length_dim :: rat
  time :: rat
  current :: rat
  angle :: rat
  temperature :: rat
  luminosity :: rat
  moles :: rat

text \<open>The type arguments that \<^verbatim>\<open>NEW_QUANTITY(Name, suffix, m, l, t, i, a, o, j, n)\<close> gives
  to \<^verbatim>\<open>Quantity\<close> (lines 184-186).\<close>

definition NEW_QUANTITY :: "int \<Rightarrow> int \<Rightarrow> int \<Rightarrow> int \<Rightarrow> int \<Rightarrow> int \<Rightarrow> int \<Rightarrow> int \<Rightarrow> dimvec" where
  "NEW_QUANTITY m l t i a o' j n =
     \<lparr>mass = of_int m, length_dim = of_int l, time = of_int t, current = of_int i,
      angle = of_int a, temperature = of_int o', luminosity = of_int j, moles = of_int n\<rparr>"

definition Number :: dimvec where
  "Number = NEW_QUANTITY 0 0 0 0 0 0 0 0"

definition Length :: dimvec where
  "Length = NEW_QUANTITY 0 1 0 0 0 0 0 0"

definition Area :: dimvec where
  "Area = NEW_QUANTITY 0 2 0 0 0 0 0 0"

definition LinearVelocity :: dimvec where
  "LinearVelocity = NEW_QUANTITY 0 1 (- 1) 0 0 0 0 0"

definition Force :: dimvec where
  "Force = NEW_QUANTITY 1 1 (- 2) 0 0 0 0 0"

text \<open>The derived types \<^verbatim>\<open>QMultiplication\<close>, \<^verbatim>\<open>QDivision\<close>, \<^verbatim>\<open>QPower\<close> and \<^verbatim>\<open>QRoot\<close>
  (lines 123-151).\<close>

definition QMultiplication :: "dimvec \<Rightarrow> dimvec \<Rightarrow> dimvec" where
  "QMultiplication Q1 Q2 =
     \<lparr>mass = mass Q1 + mass Q2, length_dim = length_dim Q1 + length_dim Q2,
      time = time Q1 + time Q2, current = current Q1 + current Q2,
      angle = angle Q1 + angle Q2, temperature = temperature Q1 + temperature Q2,
      luminosity = luminosity Q1 + luminosity Q2, moles = moles Q1 + moles Q2\<rparr>"

definition QDivision :: "dimvec \<Rightarrow> dimvec \<Rightarrow> dimvec" where
  "QDivision Q1 Q2 =
     \<lparr>mass = mass Q1 - mass Q2, length_dim = length_dim Q1 - length_dim Q2,
      time = time Q1 - time Q2, current = current Q1 - current Q2,
      angle = angle Q1 - angle Q2, temperature = temperature Q1 - temperature Q2,
      luminosity = luminosity Q1 - luminosity Q2, moles = moles Q1 - moles Q2\<rparr>"

definition QPower :: "dimvec \<Rightarrow> rat \<Rightarrow> dimvec" where
  "QPower Q factor =
     \<lparr>mass = mass Q * factor, length_dim = length_dim Q * factor,
      time = time Q * factor, current = current Q * factor,
      angle = angle Q * factor, temperature = temperature Q * factor,
      luminosity = luminosity Q * factor, moles = moles Q * factor\<rparr>"

section \<open>Outcomes\<close>

text \<open>
  A call either yields a value or has no value in the model:
  \<^item> \<open>Static_assertion\<close>: a \<^verbatim>\<open>static_assert\<close> of the instantiated template fails
    (a compile-time rejection);
  \<^item> \<open>No_match\<close>: no overload, template deduction or conversion accepts the argument types
    (a compile-time rejection);
  \<^item> \<open>Not_finite\<close>: the program runs, and the value is NaN or an infinity: a \<^verbatim>\<open><cmath>\<close>
    function is called outside the arguments for which its result is a finite number, or
    a quotient is taken by zero. The model, whose numbers there are real, follows the
    computation no further.
\<close>

datatype failure = Static_assertion | No_match | Not_finite

definition and_then :: "failure + 'a \<Rightarrow> ('a \<Rightarrow> failure + 'b) \<Rightarrow> failure + 'b" where
  "and_then r f = (case r of Inl e \<Rightarrow> Inl e | Inr v \<Rightarrow> f v)"

text \<open>\<^verbatim>\<open>std::ratio_divide<R1, R2>\<close> is ill-formed when \<^verbatim>\<open>R2\<close> is zero, so \<^verbatim>\<open>QRoot\<close>
  (lines 147-151) has no instance for a zero quotient.\<close>

definition QRoot :: "dimvec \<Rightarrow> rat \<Rightarrow> failure + dimvec" where
  "QRoot Q quot =
     (if quot = 0 then Inl Static_assertion
      else Inr
        \<lparr>mass = mass Q / quot, length_dim = length_dim Q / quot,
         time = time Q / quot, current = current Q / quot,
         angle = angle Q / quot, temperature = temperature Q / quot,
         luminosity = luminosity Q / quot, moles = moles Q / quot\<rparr>)"

section \<open>Quantities\<close>

text \<open>
  A \<^verbatim>\<open>Quantity<DIMS>\<close> object holds one \<^verbatim>\<open>double\<close>, \<^verbatim>\<open>value\<close>; its dimension vector is its
  static type. The model keeps the type beside the value, as \<open>dims\<close>. The operators of the
  class and the free operators combine the stored doubles with the built-in operators of
  \<^verbatim>\<open>double\<close> only, so the model leaves the number type open: the type variable \<open>'a\<close> stands
  for \<^verbatim>\<open>double\<close>, and each definition asks of it just the operators the source applies.
  What is proved for every \<open>'a\<close> holds whatever the arithmetic of \<^verbatim>\<open>double\<close> does (rounding,
  infinities and NaN included); what is proved for a field, or for \<^typ>\<open>real\<close>, is a
  statement about exact arithmetic; and the type \<open>double\<close> below is binary64, with its
  rounding, its range, its signed zeros, its infinities and NaN.
\<close>

record 'a quantity =
  dims :: dimvec
  val :: 'a

text \<open>\<^verbatim>\<open>explicit constexpr Quantity(double value) : value(value) {}\<close> at the type \<open>D\<close>.\<close>

definition Quantity :: "dimvec \<Rightarrow> 'a \<Rightarrow> 'a quantity" where
  "Quantity D v = \<lparr>dims = D, val = v\<rparr>"

text \<open>An expression of a quantity type initialises a parameter, or a returned object, of
  the quantity type \<open>Q\<close>: only the copy constructor \<^verbatim>\<open>Quantity(Quantity<DIMS> const&)\<close>
  applies (the constructor from \<^verbatim>\<open>double\<close> is explicit), so the types must agree.\<close>

definition as_type :: "dimvec \<Rightarrow> 'a quantity \<Rightarrow> failure + 'a quantity" where
  "as_type Q q = (if dims q = Q then Inr (Quantity Q (val q)) else Inl No_match)"

text \<open>\<^verbatim>\<open>operator+=\<close> and \<^verbatim>\<open>operator-=\<close> (lines 74 and 81); the result is the object after
  the call. The body of \<^verbatim>\<open>operator-=\<close> is the expression statement
  \<^verbatim>\<open>value == other.value;\<close>: a comparison whose result is dropped.\<close>

definition op_plus_assign :: "('a::plus) quantity \<Rightarrow> 'a quantity \<Rightarrow> failure + 'a quantity" where
  "op_plus_assign this other' =
     and_then (as_type (dims this) other') (\<lambda>other. Inr (this\<lparr>val := val this + val other\<rparr>))"

definition op_minus_assign :: "'a quantity \<Rightarrow> 'a quantity \<Rightarrow> failure + 'a quantity" where
  "op_minus_assign this other' =
     and_then (as_type (dims this) other') (\<lambda>other. let _ = (val this = val other) in Inr this)"

text \<open>\<^verbatim>\<open>operator=(const double& rhs)\<close> (lines 102-110): the \<^verbatim>\<open>static_assert\<close> over the
  eight \<^verbatim>\<open>std::ratio_equal\<close> tests, then \<^verbatim>\<open>value = rhs\<close>.\<close>

definition op_assign_double :: "'a quantity \<Rightarrow> 'a \<Rightarrow> failure + 'a quantity" where
  "op_assign_double this rhs =
     (if mass (dims this) = 0 \<and> length_dim (dims this) = 0 \<and> time (dims this) = 0 \<and>
         current (dims this) = 0 \<and> angle (dims this) = 0 \<and> temperature (dims this) = 0 \<and>
         luminosity (dims this) = 0 \<and> moles (dims this) = 0
      then Inr (this\<lparr>val := rhs\<rparr>)
      else Inl Static_assertion)"

text \<open>\<^verbatim>\<open>unit_cast\<close> (line 121), with the target type \<open>Q1\<close> as its first argument.\<close>

definition unit_cast :: "dimvec \<Rightarrow> 'a quantity \<Rightarrow> 'a quantity" where
  "unit_cast Q1 quantity' = Quantity Q1 (val quantity')"

text \<open>The free operators (lines 153-170). \<^verbatim>\<open>operator+\<close> and \<^verbatim>\<open>operator-\<close> take both
  operands at one deduced type \<^verbatim>\<open>Q\<close>.\<close>

definition op_add :: "('a::plus) quantity \<Rightarrow> 'a quantity \<Rightarrow> failure + 'a quantity" where
  "op_add lhs rhs =
     (if dims lhs = dims rhs then Inr (Quantity (dims lhs) (val lhs + val rhs)) else Inl No_match)"

definition op_sub :: "('a::minus) quantity \<Rightarrow> 'a quantity \<Rightarrow> failure + 'a quantity" where
  "op_sub lhs rhs =
     (if dims lhs = dims rhs then Inr (Quantity (dims lhs) (val lhs - val rhs)) else Inl No_match)"

definition op_div_double :: "('a::inverse) quantity \<Rightarrow> 'a \<Rightarrow> 'a quantity" where
  "op_div_double quantity' divisor = Quantity (dims quantity') (val quantity' / divisor)"

definition op_mul :: "('a::times) quantity \<Rightarrow> 'a quantity \<Rightarrow> 'a quantity" where
  "op_mul lhs rhs = Quantity (QMultiplication (dims lhs) (dims rhs)) (val lhs * val rhs)"

definition op_div :: "('a::inverse) quantity \<Rightarrow> 'a quantity \<Rightarrow> 'a quantity" where
  "op_div lhs rhs = Quantity (QDivision (dims lhs) (dims rhs)) (val lhs / val rhs)"

text \<open>\<^verbatim>\<open>units::sgn\<close> (line 333).\<close>

definition units_sgn :: "('a::{zero,ord}) quantity \<Rightarrow> int" where
  "units_sgn lhs = (if val lhs < 0 then - 1 else 1)"

text \<open>\<^verbatim>\<open>toLinear\<close> and \<^verbatim>\<open>toAngular\<close> (lines 358-382). The template argument \<^verbatim>\<open>Q\<close> occurs
  in the parameter type only as \<^verbatim>\<open>typename Q::mass\<close> and so on, so the caller names it; the
  first parameter then has the type \<^verbatim>\<open>Q\<close> and the second the type \<^verbatim>\<open>Length\<close>. Both
  functions return the type written
  \<^verbatim>\<open>Quantity<Q::mass, Q::angle, Q::time, Q::current, Q::length, Q::temperature, Q::luminosity, Q::moles>\<close>.\<close>

definition angle_length_exchanged :: "dimvec \<Rightarrow> dimvec" where
  "angle_length_exchanged Q =
     \<lparr>mass = mass Q, length_dim = angle Q, time = time Q, current = current Q,
      angle = length_dim Q, temperature = temperature Q, luminosity = luminosity Q,
      moles = moles Q\<rparr>"

definition toLinear ::
  "dimvec \<Rightarrow> ('a::{times,inverse,numeral}) quantity \<Rightarrow> 'a quantity \<Rightarrow> failure + 'a quantity" where
  "toLinear Q angular' diameter' =
     and_then (as_type Q angular') (\<lambda>angular.
     and_then (as_type Length diameter') (\<lambda>diameter.
       Inr (unit_cast (angle_length_exchanged Q) (op_mul angular (op_div_double diameter 2)))))"

definition toAngular ::
  "dimvec \<Rightarrow> ('a::{times,inverse,numeral}) quantity \<Rightarrow> 'a quantity \<Rightarrow> failure + 'a quantity" where
  "toAngular Q linear' diameter' =
     and_then (as_type Q linear') (\<lambda>linear.
     and_then (as_type Length diameter') (\<lambda>diameter.
       Inr (unit_cast (angle_length_exchanged Q) (op_div linear (op_div_double diameter 2)))))"

section \<open>Doubles\<close>

text \<open>
  \<^verbatim>\<open>double\<close> is taken to be IEEE 754 binary64. A value is a finite number, the negative
  zero, one of the two infinities, or NaN; \<open>Finite 0\<close> is the positive zero, and all NaNs
  are one value.
\<close>

datatype ieee = Finite real | Minus_zero | Plus_infinity | Minus_infinity | NaN

text \<open>The number that a finite value denotes, and the sign bit.\<close>

fun finite_value_ieee :: "ieee \<Rightarrow> real option" where
  "finite_value_ieee (Finite r) = Some r"
| "finite_value_ieee Minus_zero = Some 0"
| "finite_value_ieee _ = None"

fun sign_bit :: "ieee \<Rightarrow> bool" where
  "sign_bit (Finite r) = (r < 0)"
| "sign_bit Minus_zero = True"
| "sign_bit Plus_infinity = False"
| "sign_bit Minus_infinity = True"
| "sign_bit NaN = False"

definition signed_zero :: "bool \<Rightarrow> ieee" where
  "signed_zero negative = (if negative then Minus_zero else Finite 0)"

definition signed_infinity :: "bool \<Rightarrow> ieee" where
  "signed_infinity negative = (if negative then Minus_infinity else Plus_infinity)"

text \<open>
  Rounding in the default mode, to nearest and on a tie to the even significand. The
  doubles around \<open>x\<close> are the multiples of \<open>2 powr (binade x - 52)\<close>, where \<open>binade x\<close> is the
  exponent of \<open>x\<close> and at least \<open>-1022\<close>: below \<open>2 powr (-1022)\<close> the doubles are the
  subnormal numbers, the multiples of \<open>2 powr (-1074)\<close>. \<open>round_real x\<close> is the multiple
  nearest to \<open>x\<close>, with no bound on the exponent above. \<open>round_ieee\<close> adds the range: a
  result of magnitude \<open>2 powr 1024\<close> or more overflows to the infinity of the sign of
  \<open>x\<close>, and a number other than zero that rounds to zero gives the zero of its sign.
\<close>

definition round_to_even :: "real \<Rightarrow> int" where
  "round_to_even y =
     (let f = \<lfloor>y\<rfloor> in
      if y - of_int f < 1 / 2 then f
      else if 1 / 2 < y - of_int f then f + 1
      else if even f then f else f + 1)"

definition binade :: "real \<Rightarrow> int" where
  "binade x = max \<lfloor>log 2 \<bar>x\<bar>\<rfloor> (- 1022)"

definition round_real :: "real \<Rightarrow> real" where
  "round_real x =
     (let s = 2 powr (of_int (binade x) - 52) in of_int (round_to_even (x / s)) * s)"

definition round_ieee :: "real \<Rightarrow> ieee" where
  "round_ieee x =
     (if x = 0 then Finite 0
      else let r = round_real x in
        if 2 powr 1024 \<le> \<bar>r\<bar> then signed_infinity (x < 0)
        else if r = 0 then signed_zero (x < 0)
        else Finite r)"

text \<open>
  The built-in \<^verbatim>\<open>*\<close> and \<^verbatim>\<open>/\<close> of \<^verbatim>\<open>double\<close>: the exact product or quotient, rounded. NaN
  operands give NaN, and so do \<open>\<infinity> * 0\<close>, \<open>\<infinity> / \<infinity>\<close> and \<open>0 / 0\<close>; otherwise an infinite
  operand, or a zero divisor, gives an infinity or a zero, and an exact zero result is a
  zero; the sign of each is the exclusive or of the operands' sign bits.
\<close>

definition is_infinite :: "ieee \<Rightarrow> bool" where
  "is_infinite a = (a = Plus_infinity \<or> a = Minus_infinity)"

definition is_zero :: "ieee \<Rightarrow> bool" where
  "is_zero a = (a = Finite 0 \<or> a = Minus_zero)"

definition ieee_times :: "ieee \<Rightarrow> ieee \<Rightarrow> ieee" where
  "ieee_times a b =
     (if a = NaN \<or> b = NaN then NaN
      else if is_infinite a \<or> is_infinite b then
        (if is_zero a \<or> is_zero b then NaN else signed_infinity (sign_bit a \<noteq> sign_bit b))
      else
        (case (finite_value_ieee a, finite_value_ieee b) of
           (Some x, Some y) \<Rightarrow>
             if x * y = 0 then signed_zero (sign_bit a \<noteq> sign_bit b) else round_ieee (x * y)
         | _ \<Rightarrow> NaN))"

definition ieee_divide :: "ieee \<Rightarrow> ieee \<Rightarrow> ieee" where
  "ieee_divide a b =
     (if a = NaN \<or> b = NaN then NaN
      else if is_infinite a then
        (if is_infinite b then NaN else signed_infinity (sign_bit a \<noteq> sign_bit b))
      else if is_infinite b then signed_zero (sign_bit a \<noteq> sign_bit b)
      else if is_zero b then
        (if is_zero a then NaN else signed_infinity (sign_bit a \<noteq> sign_bit b))
      else if is_zero a then signed_zero (sign_bit a \<noteq> sign_bit b)
      else
        (case (finite_value_ieee a, finite_value_ieee b) of
           (Some x, Some y) \<Rightarrow> round_ieee (x / y)
         | _ \<Rightarrow> NaN))"

text \<open>The doubles: what rounding gives, and the special values. The operators of the
  class instantiate to \<open>ieee_times\<close> and \<open>ieee_divide\<close>.\<close>

typedef double =
  "range round_ieee \<union> {Finite 0, Finite 1, Minus_zero, Plus_infinity, Minus_infinity, NaN}"
  by blast

setup_lifting type_definition_double

instantiation double :: "{times,inverse}"
begin

lift_definition times_double :: "double \<Rightarrow> double \<Rightarrow> double" is ieee_times
  by (auto simp add: ieee_times_def signed_zero_def signed_infinity_def split: option.splits)

lift_definition divide_double :: "double \<Rightarrow> double \<Rightarrow> double" is ieee_divide
  by (auto simp add: ieee_divide_def signed_zero_def signed_infinity_def split: option.splits)

lift_definition inverse_double :: "double \<Rightarrow> double" is "ieee_divide (round_ieee 1)"
  by (auto simp add: ieee_divide_def signed_zero_def signed_infinity_def split: option.splits)

instance ..

end

text \<open>\<open>double_of_real x\<close> is the double that a literal or an \<^verbatim>\<open>int\<close> of the value \<open>x\<close> converts
  to; \<open>finite_value d\<close> is the number that \<open>d\<close> denotes, and \<open>None\<close> for an infinity and for
  NaN.\<close>

lift_definition double_of_real :: "real \<Rightarrow> double" is round_ieee
  by simp

lift_definition finite_value :: "double \<Rightarrow> real option" is finite_value_ieee .

section \<open>\<^verbatim>\<open>std::sqrt\<close> in exact arithmetic\<close>

text \<open>
  \<^verbatim>\<open>std::sqrt\<close> is not the library's own code. It is modelled on \<^typ>\<open>real\<close>, as the exact
  value that the function approximates: a finite \<^verbatim>\<open>double\<close> is the real number it denotes
  and the result is not rounded. Where the C standard (Annex F) gives NaN, for \<open>x < 0\<close>,
  the outcome is \<open>Not_finite\<close>.
\<close>

definition std_sqrt :: "real \<Rightarrow> failure + real" where
  "std_sqrt x = (if x < 0 then Inl Not_finite else Inr (sqrt x))"

section \<open>\<^verbatim>\<open>std::pow\<close> on doubles\<close>

text \<open>
  \<^verbatim>\<open>std::pow\<close> is not the library's own code either. The C standard fixes its results
  for zeros, infinities, NaN and negative bases (Annex F.10.4.4) and leaves its accuracy
  to the implementation. \<^verbatim>\<open>units::pow\<close> and \<^verbatim>\<open>units::root\<close> below therefore take the
  function as a parameter, \<open>std_pow\<close>.

  \<open>std_pow_reference\<close> is one such function: the function with the results of Annex F and, where the
  mathematical power is a number, that number correctly rounded. Its cases: an
  infinite exponent (\<open>pow_infinite_exponent\<close>), an infinite base (\<open>pow_infinite_base\<close>),
  a zero base (\<open>pow_zero_base\<close>), and a finite base that is not zero (\<open>pow_finite\<close>),
  where a negative base has a power only for an exponent that is an integer.
\<close>

definition is_odd_integer :: "real \<Rightarrow> bool" where
  "is_odd_integer y = (y = of_int \<lfloor>y\<rfloor> \<and> odd \<lfloor>y\<rfloor>)"

definition pow_infinite_exponent :: "ieee \<Rightarrow> bool \<Rightarrow> ieee" where
  "pow_infinite_exponent x negative =
     (case finite_value_ieee x of
        None \<Rightarrow> if negative then Finite 0 else Plus_infinity
      | Some a \<Rightarrow>
          if \<bar>a\<bar> = 1 then Finite 1
          else if (\<bar>a\<bar> < 1) = negative then Plus_infinity else Finite 0)"

definition pow_infinite_base :: "bool \<Rightarrow> real \<Rightarrow> ieee" where
  "pow_infinite_base negative b =
     (if negative \<and> is_odd_integer b
      then (if b < 0 then Minus_zero else Minus_infinity)
      else (if b < 0 then Finite 0 else Plus_infinity))"

definition pow_zero_base :: "ieee \<Rightarrow> real \<Rightarrow> ieee" where
  "pow_zero_base x b =
     (if b < 0
      then (if is_odd_integer b then signed_infinity (sign_bit x) else Plus_infinity)
      else (if is_odd_integer b then x else Finite 0))"

definition pow_finite :: "real \<Rightarrow> real \<Rightarrow> ieee" where
  "pow_finite a b =
     (if 0 < a then round_ieee (a powr b)
      else if b = of_int \<lfloor>b\<rfloor>
        then round_ieee ((if even \<lfloor>b\<rfloor> then 1 else - 1) * ((- a) powr b))
      else NaN)"

definition ieee_pow :: "ieee \<Rightarrow> ieee \<Rightarrow> ieee" where
  "ieee_pow x y =
     (if is_zero y \<or> x = Finite 1 then Finite 1
      else if x = NaN \<or> y = NaN then NaN
      else if is_infinite y then pow_infinite_exponent x (sign_bit y)
      else
        (case (finite_value_ieee x, finite_value_ieee y) of
           (Some a, Some b) \<Rightarrow> if a = 0 then pow_zero_base x b else pow_finite a b
         | (None, Some b) \<Rightarrow> pow_infinite_base (sign_bit x) b
         | _ \<Rightarrow> NaN))"

lift_definition std_pow_reference :: "double \<Rightarrow> double \<Rightarrow> double" is ieee_pow
proof -
  fix x y :: ieee
  let ?D = "range round_ieee \<union> {Finite 0, Finite 1, Minus_zero, Plus_infinity, Minus_infinity, NaN}"
  assume x: "x \<in> ?D"
  have 1: "pow_infinite_exponent x n \<in> ?D" for n
    by (simp add: pow_infinite_exponent_def split: option.splits)
  have 2: "pow_infinite_base n b \<in> ?D" for n b
    by (simp add: pow_infinite_base_def)
  have 3: "pow_zero_base x b \<in> ?D" for b
    using x by (simp add: pow_zero_base_def signed_infinity_def)
  have 4: "pow_finite a b \<in> ?D" for a b
    by (simp add: pow_finite_def)
  show "ieee_pow x y \<in> ?D"
    unfolding ieee_pow_def using 1 2 3 4 by (simp split: option.splits)
qed


section \<open>The functions of namespace \<^verbatim>\<open>units\<close>\<close>

text \<open>\<^verbatim>\<open>units::pow\<close>, \<^verbatim>\<open>units::square\<close>, \<^verbatim>\<open>units::root\<close> and \<^verbatim>\<open>units::sqrt\<close> (lines 301-319),
  with the template argument \<^verbatim>\<open>R\<close> as an argument. \<^verbatim>\<open>std::pow(lhs.val(), R)\<close> converts the
  \<^verbatim>\<open>int\<close> to \<^verbatim>\<open>double\<close>, and \<^verbatim>\<open>std::pow(lhs.val(), 1.0 / R)\<close> divides two doubles; both
  functions work on doubles, with \<^verbatim>\<open>std::pow\<close> as their first argument. The body of
  \<^verbatim>\<open>units::square\<close> is \<^verbatim>\<open>return S(std::sqrt(rhs.val()));\<close>; it and \<^verbatim>\<open>units::sqrt\<close> work on
  real numbers, with \<^verbatim>\<open>std::sqrt\<close> exact.\<close>

definition units_pow ::
  "(double \<Rightarrow> double \<Rightarrow> double) \<Rightarrow> int \<Rightarrow> double quantity \<Rightarrow> double quantity" where
  "units_pow std_pow R lhs =
     Quantity (QPower (dims lhs) (of_int R)) (std_pow (val lhs) (double_of_real (of_int R)))"

definition units_square :: "real quantity \<Rightarrow> failure + real quantity" where
  "units_square rhs =
     and_then (std_sqrt (val rhs)) (\<lambda>v. Inr (Quantity (QPower (dims rhs) 2) v))"

definition units_root ::
  "(double \<Rightarrow> double \<Rightarrow> double) \<Rightarrow> int \<Rightarrow> double quantity \<Rightarrow> failure + double quantity" where
  "units_root std_pow R lhs =
     and_then (QRoot (dims lhs) (of_int R)) (\<lambda>S.
       Inr (Quantity S (std_pow (val lhs) (double_of_real 1 / double_of_real (of_int R)))))"

definition units_sqrt :: "real quantity \<Rightarrow> failure + real quantity" where
  "units_sqrt rhs =
     and_then (QRoot (dims rhs) 2) (\<lambda>S.
     and_then (std_sqrt (val rhs)) (\<lambda>v. Inr (Quantity S v)))"

section \<open>Vector3D\<close>

text \<open>
  \<^verbatim>\<open>template <isQuantity T> class Vector3D\<close> has the members \<^verbatim>\<open>T x; T y; T z;\<close>
  (Vector3D.hpp, lines 15-17). The fields are called \<open>v_x\<close>, \<open>v_y\<close> and \<open>v_z\<close>, to leave
  \<open>x\<close>, \<open>y\<close> and \<open>z\<close> free as variables. The three components of an object have one type,
  the template argument \<^verbatim>\<open>T\<close>: \<open>Vector3D_of T v\<close> says that \<open>v\<close> is a \<^verbatim>\<open>Vector3D<T>\<close>.
\<close>

record 'a Vector3D =
  v_x :: "'a quantity"
  v_y :: "'a quantity"
  v_z :: "'a quantity"

definition Vector3D_of :: "dimvec \<Rightarrow> 'a Vector3D \<Rightarrow> bool" where
  "Vector3D_of T v = (dims (v_x v) = T \<and> dims (v_y v) = T \<and> dims (v_z v) = T)"

text \<open>\<^verbatim>\<open>constexpr Vector3D(T nx, T ny, T nz) : x(nx), y(ny), z(nz) {}\<close> (line 35).\<close>

definition Vector3D ::
  "dimvec \<Rightarrow> 'a quantity \<Rightarrow> 'a quantity \<Rightarrow> 'a quantity \<Rightarrow> failure + 'a Vector3D" where
  "Vector3D T nx' ny' nz' =
     and_then (as_type T nx') (\<lambda>nx.
     and_then (as_type T ny') (\<lambda>ny.
     and_then (as_type T nz') (\<lambda>nz. Inr \<lparr>v_x = nx, v_y = ny, v_z = nz\<rparr>)))"

text \<open>\<^verbatim>\<open>operator-\<close> of the class (lines 80-82).\<close>

definition vec_minus :: "dimvec \<Rightarrow> ('a::minus) Vector3D \<Rightarrow> 'a Vector3D \<Rightarrow> failure + 'a Vector3D" where
  "vec_minus T this other =
     and_then (op_sub (v_x this) (v_x other)) (\<lambda>dx.
     and_then (op_sub (v_y this) (v_y other)) (\<lambda>dy.
     and_then (op_sub (v_z this) (v_z other)) (\<lambda>dz. Vector3D T dx dy dz)))"

text \<open>\<^verbatim>\<open>magnitude\<close> (line 219):
  \<^verbatim>\<open>constexpr T magnitude() const { return sqrt(square(x) + square(y) + square(z)); }\<close>.
  The names resolve to \<^verbatim>\<open>units::sqrt\<close> and \<^verbatim>\<open>units::square\<close>; the result is returned at
  the type \<^verbatim>\<open>T\<close>.\<close>

definition magnitude :: "dimvec \<Rightarrow> real Vector3D \<Rightarrow> failure + real quantity" where
  "magnitude T this =
     and_then (units_square (v_x this)) (\<lambda>sx.
     and_then (units_square (v_y this)) (\<lambda>sy.
     and_then (units_square (v_z this)) (\<lambda>sz.
     and_then (op_add sx sy) (\<lambda>sxy.
     and_then (op_add sxy sz) (\<lambda>s.
     and_then (units_sqrt s) (as_type T))))))"

text \<open>Modelled from the spec: units/Angle.hpp, which declares the quantity type \<^verbatim>\<open>Angle\<close>
  and the functions \<^verbatim>\<open>cos\<close> and \<^verbatim>\<open>acos\<close> on quantities, is not among the sources. The spec
  names angle as a base dimension, and units.hpp gives it the fifth exponent.\<close>

definition Angle :: dimvec where
  "Angle = NEW_QUANTITY 0 0 0 0 1 0 0 0"

text \<open>\<^verbatim>\<open>theta\<close> (lines 209-212):
  \<^verbatim>\<open>const T mag = magnitude(); return Vector3D<Angle>(acos(x / mag), acos(y / mag), acos(z / mag));\<close>.
  \<^verbatim>\<open>acos\<close> is the parameter \<open>acos_number\<close>. The values are real numbers here, so the model
  stops where \<^verbatim>\<open>mag\<close> is zero: the quotients are then infinities or NaN, and so are the
  angles.\<close>

definition theta ::
  "(real quantity \<Rightarrow> failure + real quantity) \<Rightarrow> dimvec \<Rightarrow> real Vector3D \<Rightarrow> failure + real Vector3D" where
  "theta acos_number T this =
     and_then (magnitude T this) (\<lambda>mag.
       if val mag = 0 then Inl Not_finite
       else
         and_then (acos_number (op_div (v_x this) mag)) (\<lambda>ax.
         and_then (acos_number (op_div (v_y this) mag)) (\<lambda>ay.
         and_then (acos_number (op_div (v_z this) mag)) (\<lambda>az. Vector3D Angle ax ay az))))"

text \<open>\<^verbatim>\<open>vectorTo\<close> (lines 232-234):
  \<^verbatim>\<open>return Vector2D<T>(other.x - x, other.y - y, other.z - z);\<close>.
  No class \<^verbatim>\<open>Vector2D\<close> is declared in units.hpp or Vector3D.hpp. The model takes it as the
  parameter \<open>Vector2D\<close>: the construction of a \<^verbatim>\<open>Vector2D<T>\<close> from three quantities of type
  \<^verbatim>\<open>T\<close>, followed by the conversion of that object to the return type \<^verbatim>\<open>Vector3D<T>\<close>.\<close>

definition vectorTo ::
  "('a quantity \<Rightarrow> 'a quantity \<Rightarrow> 'a quantity \<Rightarrow> failure + 'a Vector3D) \<Rightarrow>
   ('a::minus) Vector3D \<Rightarrow> 'a Vector3D \<Rightarrow> failure + 'a Vector3D" where
  "vectorTo Vector2D this other =
     and_then (op_sub (v_x other) (v_x this)) (\<lambda>dx.
     and_then (op_sub (v_y other) (v_y this)) (\<lambda>dy.
     and_then (op_sub (v_z other) (v_z this)) (\<lambda>dz. Vector2D dx dy dz)))"

text \<open>\<^verbatim>\<open>fromPolar\<close> (lines 45-48):
  \<^verbatim>\<open>m = m.abs(); return Vector3D<T>(m * cos(t.x), m * cos(t.y), m * cos(t.z));\<close>.
  Class \<^verbatim>\<open>Quantity\<close> (units.hpp, lines 25-111) declares no member \<^verbatim>\<open>abs\<close>, and \<^verbatim>\<open>cos\<close> on an
  angle comes from units/Angle.hpp, which is not among the sources. Both are parameters:
  \<open>abs_member\<close> is the call \<^verbatim>\<open>m.abs()\<close> and \<open>cos_angle\<close> the call \<^verbatim>\<open>cos(a)\<close>, each with its
  outcome. The assignment \<^verbatim>\<open>m = ...\<close> needs a value of type \<^verbatim>\<open>T\<close>.\<close>

definition fromPolar ::
  "('a quantity \<Rightarrow> failure + 'a quantity) \<Rightarrow> ('a quantity \<Rightarrow> failure + 'a quantity) \<Rightarrow>
   dimvec \<Rightarrow> ('a::times) Vector3D \<Rightarrow> 'a quantity \<Rightarrow> failure + 'a Vector3D" where
  "fromPolar abs_member cos_angle T t m' =
     and_then (as_type T m') (\<lambda>m0.
     and_then (abs_member m0) (\<lambda>a.
     and_then (as_type T a) (\<lambda>m.
     and_then (cos_angle (v_x t)) (\<lambda>cx.
     and_then (cos_angle (v_y t)) (\<lambda>cy.
     and_then (cos_angle (v_z t)) (\<lambda>cz.
       Vector3D T (op_mul m cx) (op_mul m cy) (op_mul m cz)))))))"

section \<open>Properties of the quantity operators\<close>

lemma and_then_Inr [simp]: "and_then (Inr v) f = f v"
  by (simp add: and_then_def)

lemma and_then_Inl [simp]: "and_then (Inl e) f = Inl e"
  by (simp add: and_then_def)

lemma dims_Quantity [simp]: "dims (Quantity D v) = D"
  by (simp add: Quantity_def)

lemma val_Quantity [simp]: "val (Quantity D v) = v"
  by (simp add: Quantity_def)

lemma Quantity_eq_iff [simp]: "Quantity D v = Quantity E w \<longleftrightarrow> D = E \<and> v = w"
  by (simp add: Quantity_def)

lemma Quantity_dims_val [simp]: "Quantity (dims q) (val q) = q"
  by (simp add: Quantity_def)

text \<open>C9. For every quantity and every target type, \<^verbatim>\<open>unit_cast\<close> gives a quantity of the
  target type that stores the argument's number itself, whatever the two dimension
  vectors are.\<close>

theorem unit_cast_preserves_val:
  "val (unit_cast Q2 q) = val q \<and> dims (unit_cast Q2 q) = Q2"
  by (simp add: unit_cast_def)

section \<open>Products and quotients\<close>

lemma dims_op_mul [simp]: "dims (op_mul a b) = QMultiplication (dims a) (dims b)"
  by (simp add: op_mul_def)

lemma val_op_mul [simp]: "val (op_mul a b) = val a * val b"
  by (simp add: op_mul_def)

lemma dims_op_div [simp]: "dims (op_div a b) = QDivision (dims a) (dims b)"
  by (simp add: op_div_def)

lemma val_op_div [simp]: "val (op_div a b) = val a / val b"
  by (simp add: op_div_def)

lemma QMultiplication_QDivision [simp]: "QMultiplication (QDivision D1 D2) D2 = D1"
  by (simp add: QMultiplication_def QDivision_def)

lemma quantity_eqI: "dims p = dims q \<Longrightarrow> val p = val q \<Longrightarrow> p = (q :: 'a quantity)"
  by simp

lemma multiply_divide_exact:
  fixes a b :: "('a::field) quantity"
  assumes "val b \<noteq> 0"
  shows "op_mul (op_div a b) b = a"
proof (rule quantity_eqI)
  show "dims (op_mul (op_div a b) b) = dims a" by simp
  show "val (op_mul (op_div a b) b) = val a" using assms by simp
qed

subsection \<open>Rounding\<close>

text \<open>The rounding error is at most half the spacing: relative \<open>1 / 2 ^ 53\<close> among the
  normal numbers, absolute \<open>2 powr (-1075)\<close> among the subnormal ones. Powers of two and
  integers below \<open>2 ^ 53\<close> in magnitude are doubles.\<close>

lemma round_to_even_error: "\<bar>of_int (round_to_even y) - y\<bar> \<le> 1 / 2"
proof -
  have "of_int \<lfloor>y\<rfloor> \<le> y" and "y < of_int \<lfloor>y\<rfloor> + 1"
    by linarith+
  then show ?thesis
    by (auto simp add: round_to_even_def Let_def)
qed

lemma round_to_even_of_int: "round_to_even (of_int m) = m"
  by (simp add: round_to_even_def)

lemma round_real_error:
  assumes "x \<noteq> 0"
  shows "\<bar>round_real x - x\<bar> \<le> max (\<bar>x\<bar> / 2 ^ 53) (2 powr (- 1075))"
proof -
  define s :: real where "s = 2 powr (of_int (binade x) - 52)"
  have s_pos: "0 < s" by (simp add: s_def)
  have r: "round_real x = of_int (round_to_even (x / s)) * s"
    by (simp add: round_real_def s_def Let_def)
  have "round_real x - x = (of_int (round_to_even (x / s)) - x / s) * s"
    using s_pos by (simp add: r algebra_simps)
  then have "\<bar>round_real x - x\<bar> = \<bar>of_int (round_to_even (x / s)) - x / s\<bar> * s"
    using s_pos by (simp add: abs_mult)
  also have "\<dots> \<le> 1 / 2 * s"
    using s_pos round_to_even_error [of "x / s"] by (intro mult_right_mono) simp_all
  also have "1 / 2 * s = 2 powr (of_int (binade x) - 53)"
    by (simp add: s_def powr_diff)
  also have "\<dots> \<le> max (\<bar>x\<bar> / 2 ^ 53) (2 powr (- 1075))"
  proof (cases "- 1022 \<le> \<lfloor>log 2 \<bar>x\<bar>\<rfloor>")
    case True
    then have "binade x = \<lfloor>log 2 \<bar>x\<bar>\<rfloor>" by (simp add: binade_def)
    then have "2 powr (of_int (binade x) - 53) \<le> 2 powr (log 2 \<bar>x\<bar> - 53)"
      by (intro powr_mono) simp_all
    also have "\<dots> = \<bar>x\<bar> / 2 ^ 53"
      using assms by (simp add: powr_diff)
    finally show ?thesis by simp
  next
    case False
    then have "binade x = - 1022" by (simp add: binade_def)
    then show ?thesis by simp
  qed
  finally show ?thesis .
qed

lemma round_real_pow2:
  assumes "- 1022 \<le> k" and "\<bar>c\<bar> = 1"
  shows "round_real (c * 2 powr of_int k) = c * 2 powr of_int k"
proof -
  have a: "\<bar>c * 2 powr of_int k\<bar> = 2 powr of_int k"
    using assms by (simp add: abs_mult)
  have "log 2 (2 powr of_int k) = of_int k" by simp
  then have "\<lfloor>log 2 \<bar>c * 2 powr of_int k\<bar>\<rfloor> = k"
    by (simp add: a)
  with assms have b: "binade (c * 2 powr of_int k) = k"
    by (simp add: binade_def)
  have "c * 2 powr of_int k / 2 powr (of_int k - 52) = c * 2 powr 52"
    by (simp add: powr_diff)
  also have "\<dots> = of_int (if c = 1 then 2 ^ 52 else - (2 ^ 52))"
    using assms by (auto simp add: abs_if split: if_splits)
  finally have "round_to_even (c * 2 powr of_int k / 2 powr (of_int k - 52))
      = (if c = 1 then 2 ^ 52 else - (2 ^ 52))"
    by (simp only: round_to_even_of_int)
  moreover have "of_int (if c = 1 then 2 ^ 52 else - (2 ^ 52)) * 2 powr (of_int k - 52)
      = c * 2 powr of_int k"
    using assms by (auto simp add: powr_diff abs_if split: if_splits)
  ultimately show ?thesis
    by (simp only: round_real_def Let_def b)
qed

lemma finite_value_signed_zero [simp]: "finite_value_ieee (signed_zero n) = Some 0"
  by (simp add: signed_zero_def)

lemma round_ieee_value:
  assumes "\<bar>round_real x\<bar> < 2 powr 1024"
  shows "finite_value_ieee (round_ieee x) = Some (round_real x)"
proof (cases "x = 0")
  case True
  then show ?thesis
    by (simp add: round_ieee_def round_real_def round_to_even_def)
next
  case False
  with assms show ?thesis
    by (simp add: round_ieee_def Let_def)
qed

lemma round_ieee_in_range:
  assumes "x \<noteq> 0" and "\<bar>x\<bar> \<le> 3 * 2 powr 1022"
  shows "\<exists>r. finite_value_ieee (round_ieee x) = Some r
           \<and> \<bar>r - x\<bar> \<le> max (\<bar>x\<bar> / 2 ^ 53) (2 powr (- 1075))"
proof -
  define M :: real where "M = 2 powr 1022"
  have "(2::real) powr 1 \<le> 2 powr 1022"
    by (intro powr_mono) simp_all
  then have M2: "2 \<le> M" by (simp add: M_def)
  have M4: "2 powr 1024 = 4 * M"
  proof -
    have "(2::real) powr 1024 = 2 powr (2 + 1022)" by simp
    also have "\<dots> = 2 powr 2 * 2 powr 1022" by (rule powr_add)
    finally show ?thesis by (simp add: M_def)
  qed
  have "(2::real) powr (- 1075) \<le> 2 powr 0"
    by (intro powr_mono) simp_all
  then have small: "(2::real) powr (- 1075) \<le> 1" by simp
  note e = round_real_error [OF assms(1)]
  have "\<bar>x\<bar> / 2 ^ 53 \<le> \<bar>x\<bar> / 6"
    by (intro divide_left_mono) simp_all
  with assms(2) have "\<bar>x\<bar> / 2 ^ 53 \<le> M / 2" by (simp add: M_def)
  with small M2 have "max (\<bar>x\<bar> / 2 ^ 53) (2 powr (- 1075)) \<le> M / 2"
    by simp
  with e have "\<bar>round_real x - x\<bar> \<le> M / 2" by linarith
  with assms(2) have "\<bar>round_real x\<bar> \<le> 3 * M + M / 2"
    unfolding M_def by linarith
  with M2 have "\<bar>round_real x\<bar> < 2 powr 1024"
    unfolding M4 by linarith
  then have "finite_value_ieee (round_ieee x) = Some (round_real x)"
    by (rule round_ieee_value)
  with e show ?thesis by blast
qed

lemma finite_value_cases:
  assumes "finite_value_ieee a = Some x"
  shows "a \<noteq> NaN \<and> \<not> is_infinite a \<and> (is_zero a \<longleftrightarrow> x = 0)"
  using assms by (cases a) (auto simp add: is_infinite_def is_zero_def)

lemma ieee_times_finite:
  assumes "finite_value_ieee a = Some x" and "finite_value_ieee b = Some y" and "x * y \<noteq> 0"
  shows "ieee_times a b = round_ieee (x * y)"
  using assms finite_value_cases [OF assms(1)] finite_value_cases [OF assms(2)]
  by (simp add: ieee_times_def)

lemma ieee_times_zero:
  assumes "finite_value_ieee a = Some x" and "finite_value_ieee b = Some y" and "x * y = 0"
  shows "finite_value_ieee (ieee_times a b) = Some 0"
  using assms finite_value_cases [OF assms(1)] finite_value_cases [OF assms(2)]
  by (simp add: ieee_times_def)

lemma ieee_divide_finite:
  assumes "finite_value_ieee a = Some x" and "finite_value_ieee b = Some y"
    and "x \<noteq> 0" and "y \<noteq> 0"
  shows "ieee_divide a b = round_ieee (x / y)"
  using assms finite_value_cases [OF assms(1)] finite_value_cases [OF assms(2)]
  by (simp add: ieee_divide_def)

lemma ieee_divide_zero:
  assumes "finite_value_ieee a = Some 0" and "finite_value_ieee b = Some y" and "y \<noteq> 0"
  shows "finite_value_ieee (ieee_divide a b) = Some 0"
  using assms finite_value_cases [OF assms(1)] finite_value_cases [OF assms(2)]
  by (simp add: ieee_divide_def)

lemma round_ieee_normal:
  assumes "2 powr (- 1022) \<le> \<bar>x\<bar>" and "\<bar>x\<bar> \<le> 2 powr 1023"
  shows "\<exists>r. finite_value_ieee (round_ieee x) = Some r \<and> \<bar>r - x\<bar> \<le> \<bar>x\<bar> / 2 ^ 53"
proof -
  have "0 < (2::real) powr (- 1022)" by simp
  with assms(1) have nz: "x \<noteq> 0" by auto
  have "(2::real) powr 1023 \<le> 3 * 2 powr 1022"
  proof -
    have "(2::real) powr 1023 = 2 powr (1 + 1022)" by simp
    also have "\<dots> = 2 powr 1 * 2 powr 1022" by (rule powr_add)
    finally show ?thesis by simp
  qed
  with assms(2) have "\<bar>x\<bar> \<le> 3 * 2 powr 1022" by linarith
  with nz obtain r where r: "finite_value_ieee (round_ieee x) = Some r"
    and e: "\<bar>r - x\<bar> \<le> max (\<bar>x\<bar> / 2 ^ 53) (2 powr (- 1075))"
    using round_ieee_in_range by blast
  have "(2::real) powr (- 1075) = 2 powr (- 1022) / 2 ^ 53"
  proof -
    have "(2::real) powr (- 1075) = 2 powr (- 1022 - 53)" by simp
    also have "\<dots> = 2 powr (- 1022) / 2 powr 53" by (rule powr_diff)
    finally show ?thesis by simp
  qed
  also have "\<dots> \<le> \<bar>x\<bar> / 2 ^ 53"
    using assms(1) by (intro divide_right_mono) simp_all
  finally have "max (\<bar>x\<bar> / 2 ^ 53) (2 powr (- 1075)) = \<bar>x\<bar> / 2 ^ 53"
    by simp
  with e have "\<bar>r - x\<bar> \<le> \<bar>x\<bar> / 2 ^ 53" by (simp only:)
  with r show ?thesis by blast
qed

lemma round_ieee_near_normal:
  assumes "2 powr (- 1023) \<le> \<bar>x\<bar>" and "\<bar>x\<bar> \<le> 3 * 2 powr 1022"
  shows "\<exists>r. finite_value_ieee (round_ieee x) = Some r \<and> \<bar>r - x\<bar> \<le> \<bar>x\<bar> / 2 ^ 52"
proof -
  have "0 < (2::real) powr (- 1023)" by simp
  with assms(1) have nz: "x \<noteq> 0" by auto
  with assms(2) obtain r where r: "finite_value_ieee (round_ieee x) = Some r"
    and e: "\<bar>r - x\<bar> \<le> max (\<bar>x\<bar> / 2 ^ 53) (2 powr (- 1075))"
    using round_ieee_in_range by blast
  have "(2::real) powr (- 1075) = 2 powr (- 1023) / 2 ^ 52"
  proof -
    have "(2::real) powr (- 1075) = 2 powr (- 1023 - 52)" by simp
    also have "\<dots> = 2 powr (- 1023) / 2 powr 52" by (rule powr_diff)
    finally show ?thesis by simp
  qed
  also have "\<dots> \<le> \<bar>x\<bar> / 2 ^ 52"
    using assms(1) by (intro divide_right_mono) simp_all
  finally have a: "(2::real) powr (- 1075) \<le> \<bar>x\<bar> / 2 ^ 52" .
  have "\<bar>x\<bar> / 2 ^ 53 \<le> \<bar>x\<bar> / 2 ^ 52"
    by (intro divide_left_mono) simp_all
  with a have "max (\<bar>x\<bar> / 2 ^ 53) (2 powr (- 1075)) \<le> \<bar>x\<bar> / 2 ^ 52"
    by simp
  with e have "\<bar>r - x\<bar> \<le> \<bar>x\<bar> / 2 ^ 52" by (rule order_trans)
  with r show ?thesis by blast
qed

lemma round_trip_bound:
  fixes x y t p r :: real
  assumes y: "y \<noteq> 0"
    and t: "\<bar>t - x / y\<bar> \<le> \<bar>x / y\<bar> / 2 ^ 53"
    and r: "\<bar>r - t * y\<bar> \<le> \<bar>t * y\<bar> / 2 ^ 52"
  shows "\<bar>r - x\<bar> \<le> \<bar>x\<bar> / 2 ^ 51"
proof -
  have "t * y - x = (t - x / y) * y"
    using y by (simp add: algebra_simps)
  then have "\<bar>t * y - x\<bar> = \<bar>t - x / y\<bar> * \<bar>y\<bar>"
    by (simp add: abs_mult)
  also have "\<dots> \<le> \<bar>x / y\<bar> / 2 ^ 53 * \<bar>y\<bar>"
    using t by (intro mult_right_mono) simp_all
  also have "\<dots> = \<bar>x\<bar> / 2 ^ 53"
    using y by simp
  finally have e1: "\<bar>t * y - x\<bar> \<le> \<bar>x\<bar> / 2 ^ 53" .
  then have "\<bar>t * y\<bar> \<le> \<bar>x\<bar> + \<bar>x\<bar> / 2 ^ 53"
    by linarith
  also have "\<dots> \<le> 3 / 2 * \<bar>x\<bar>"
    by simp
  finally have "\<bar>t * y\<bar> / 2 ^ 52 \<le> 3 / 2 * \<bar>x\<bar> / 2 ^ 52"
    by (intro divide_right_mono) simp_all
  with r have e2: "\<bar>r - t * y\<bar> \<le> 3 / 2 * \<bar>x\<bar> / 2 ^ 52"
    by linarith
  have "\<bar>r - x\<bar> \<le> \<bar>r - t * y\<bar> + \<bar>t * y - x\<bar>"
    by linarith
  with e1 e2 have "\<bar>r - x\<bar> \<le> 3 / 2 * \<bar>x\<bar> / 2 ^ 52 + \<bar>x\<bar> / 2 ^ 53"
    by linarith
  also have "\<dots> \<le> \<bar>x\<bar> / 2 ^ 51"
    by simp
  finally show ?thesis .
qed

lemma ieee_round_trip:
  assumes a: "finite_value_ieee a = Some x"
    and b: "finite_value_ieee b = Some y"
    and y: "y \<noteq> 0"
    and range: "x = 0 \<or>
      (2 powr (- 1022) \<le> \<bar>x\<bar> \<and> \<bar>x\<bar> \<le> 2 powr 1023 \<and>
       2 powr (- 1022) \<le> \<bar>x / y\<bar> \<and> \<bar>x / y\<bar> \<le> 2 powr 1023)"
  shows "\<exists>r. finite_value_ieee (ieee_times (ieee_divide a b) b) = Some r
           \<and> \<bar>r - x\<bar> \<le> \<bar>x\<bar> / 2 ^ 51"
proof (cases "x = 0")
  case True
  with a b y have "finite_value_ieee (ieee_divide a b) = Some 0"
    by (simp add: ieee_divide_zero)
  then have "finite_value_ieee (ieee_times (ieee_divide a b) b) = Some 0"
    using b by (rule ieee_times_zero) simp
  with True show ?thesis by simp
next
  case False
  with range have x1: "2 powr (- 1022) \<le> \<bar>x\<bar>" and x2: "\<bar>x\<bar> \<le> 2 powr 1023"
    and q1: "2 powr (- 1022) \<le> \<bar>x / y\<bar>" and q2: "\<bar>x / y\<bar> \<le> 2 powr 1023"
    by simp_all
  from a b False y have d: "ieee_divide a b = round_ieee (x / y)"
    by (rule ieee_divide_finite)
  from q1 q2 obtain t where t: "finite_value_ieee (round_ieee (x / y)) = Some t"
    and et: "\<bar>t - x / y\<bar> \<le> \<bar>x / y\<bar> / 2 ^ 53"
    using round_ieee_normal by blast
  have "t * y - x = (t - x / y) * y"
    using y by (simp add: algebra_simps)
  then have "\<bar>t * y - x\<bar> = \<bar>t - x / y\<bar> * \<bar>y\<bar>"
    by (simp add: abs_mult)
  also have "\<dots> \<le> \<bar>x / y\<bar> / 2 ^ 53 * \<bar>y\<bar>"
    using et by (intro mult_right_mono) simp_all
  also have "\<dots> = \<bar>x\<bar> / 2 ^ 53"
    using y by simp
  finally have near: "\<bar>t * y - x\<bar> \<le> \<bar>x\<bar> / 2 ^ 53" .
  have half: "\<bar>x\<bar> / 2 ^ 53 \<le> \<bar>x\<bar> / 2"
    by (intro divide_left_mono) simp_all
  have lo: "2 powr (- 1023) \<le> \<bar>t * y\<bar>"
  proof -
    have "(2::real) powr (- 1023) = 2 powr (- 1022 - 1)" by simp
    also have "\<dots> = 2 powr (- 1022) / 2 powr 1" by (rule powr_diff)
    also have "\<dots> \<le> \<bar>x\<bar> / 2" using x1 by simp
    also have "\<dots> \<le> \<bar>t * y\<bar>" using near half by linarith
    finally show ?thesis .
  qed
  have hi: "\<bar>t * y\<bar> \<le> 3 * 2 powr 1022"
  proof -
    have "(2::real) powr 1023 = 2 powr (1 + 1022)" by simp
    also have "\<dots> = 2 powr 1 * 2 powr 1022" by (rule powr_add)
    finally have "(2::real) powr 1023 = 2 * 2 powr 1022" by simp
    with x2 have "\<bar>x\<bar> \<le> 2 * 2 powr 1022" by (simp only:)
    with near half show ?thesis by linarith
  qed
  have "0 < (2::real) powr (- 1023)" by simp
  with lo have "t * y \<noteq> 0" by auto
  with t b have m: "ieee_times (round_ieee (x / y)) b = round_ieee (t * y)"
    by (rule ieee_times_finite)
  from lo hi obtain r where r: "finite_value_ieee (round_ieee (t * y)) = Some r"
    and er: "\<bar>r - t * y\<bar> \<le> \<bar>t * y\<bar> / 2 ^ 52"
    using round_ieee_near_normal by blast
  from y et er have "\<bar>r - x\<bar> \<le> \<bar>x\<bar> / 2 ^ 51"
    by (rule round_trip_bound)
  with r show ?thesis by (simp add: d m)
qed

lemma round_ieee_pow2:
  assumes "- 1022 \<le> k" "k < 1024" "\<bar>c\<bar> = 1"
  shows "round_ieee (c * 2 powr of_int k) = Finite (c * 2 powr of_int k)"
proof -
  have r: "round_real (c * 2 powr of_int k) = c * 2 powr of_int k"
    using assms by (simp add: round_real_pow2)
  have "(2::real) powr of_int k < 2 powr 1024"
    using assms by (intro powr_less_mono) simp_all
  moreover have "\<bar>c * 2 powr of_int k\<bar> = 2 powr of_int k"
    using assms by (simp add: abs_mult)
  moreover have "c * 2 powr of_int k \<noteq> 0"
    using assms by auto
  ultimately show ?thesis
    unfolding round_ieee_def Let_def r by (simp add: abs_mult)
qed


lemma round_ieee_underflow: "round_ieee (2 powr (- 1080)) = Finite 0"
proof -
  have "\<lfloor>log 2 (2 powr (- 1080))\<rfloor> = - 1080"
    by simp
  then have b: "binade (2 powr (- 1080)) = - 1022"
    by (simp add: binade_def)
  have q: "(2::real) powr (- 1080) / 2 powr (- 1074) = 1 / 64"
  proof -
    have "(2::real) powr (- 1080) / 2 powr (- 1074) = 2 powr (- 1080 - (- 1074))"
      by (rule powr_diff [symmetric])
    also have "\<dots> = 2 powr (- 6)"
      by simp
    also have "\<dots> = 1 / 2 powr 6"
      by (simp only: powr_minus_divide)
    also have "\<dots> = 1 / 64"
      by simp
    finally show ?thesis .
  qed
  have "round_to_even (1 / 64) = 0"
    by (simp add: round_to_even_def Let_def)
  then have "round_real (2 powr (- 1080)) = 0"
    unfolding round_real_def Let_def b using q by simp
  then show ?thesis
    unfolding round_ieee_def Let_def by (simp add: signed_zero_def)
qed

lemma round_ieee_overflow: "round_ieee (2 powr 1200) = Plus_infinity"
proof -
  have r: "round_real (1 * 2 powr of_int 1200) = 1 * 2 powr of_int 1200"
    by (rule round_real_pow2) simp_all
  then have r': "round_real (2 powr 1200) = 2 powr 1200"
    by simp
  have "(2::real) powr 1024 \<le> 2 powr 1200"
    by (intro powr_mono) simp_all
  then show ?thesis
    unfolding round_ieee_def Let_def r' by (simp add: signed_infinity_def)
qed

lemma finite_value_double_of_real_pow2:
  assumes "- 1022 \<le> k" "k < 1024" "\<bar>c\<bar> = 1"
  shows "finite_value (double_of_real (c * 2 powr of_int k)) = Some (c * 2 powr of_int k)"
  using assms by transfer (simp add: round_ieee_pow2)

lemma double_round_trip:
  fixes a b :: double
  assumes "finite_value a = Some x" and "finite_value b = Some y" and "y \<noteq> 0"
    and "x = 0 \<or> (2 powr (- 1022) \<le> \<bar>x\<bar> \<and> \<bar>x\<bar> \<le> 2 powr 1023 \<and>
                  2 powr (- 1022) \<le> \<bar>x / y\<bar> \<and> \<bar>x / y\<bar> \<le> 2 powr 1023)"
  shows "\<exists>r. finite_value (a / b * b) = Some r \<and> \<bar>r - x\<bar> \<le> \<bar>x\<bar> / 2 ^ 51"
  using assms by transfer (rule ieee_round_trip)

lemma quotient_underflows:
  "finite_value (double_of_real (2 powr (- 540)) / double_of_real (2 powr 540)
     * double_of_real (2 powr 540)) = Some 0"
proof -
  have a: "round_ieee (2 powr (- 540)) = Finite (2 powr (- 540))"
    using round_ieee_pow2 [of "- 540" 1] by simp
  have b: "round_ieee (2 powr 540) = Finite (2 powr 540)"
    using round_ieee_pow2 [of 540 1] by simp
  have "(2::real) powr (- 540) / 2 powr 540 = 2 powr (- 540 - 540)"
    by (rule powr_diff [symmetric])
  then have q: "(2::real) powr (- 540) / 2 powr 540 = 2 powr (- 1080)"
    by simp
  have "ieee_divide (Finite (2 powr (- 540))) (Finite (2 powr 540)) = round_ieee (2 powr (- 540) / 2 powr 540)"
    by (rule ieee_divide_finite) simp_all
  then have d: "ieee_divide (Finite (2 powr (- 540))) (Finite (2 powr 540)) = Finite 0"
    by (simp only: q round_ieee_underflow)
  have t: "ieee_times (Finite 0) (Finite (2 powr 540)) = Finite 0"
    by (simp add: ieee_times_def is_infinite_def is_zero_def signed_zero_def)
  show ?thesis
    by transfer (simp only: a b d t finite_value_ieee.simps)
qed

lemma quotient_overflows:
  "finite_value (double_of_real (2 powr 600) / double_of_real (2 powr (- 600))
     * double_of_real (2 powr (- 600))) = None"
proof -
  have a: "round_ieee (2 powr 600) = Finite (2 powr 600)"
    using round_ieee_pow2 [of 600 1] by simp
  have b: "round_ieee (2 powr (- 600)) = Finite (2 powr (- 600))"
    using round_ieee_pow2 [of "- 600" 1] by simp
  have "(2::real) powr 600 / 2 powr (- 600) = 2 powr (600 - (- 600))"
    by (rule powr_diff [symmetric])
  then have q: "(2::real) powr 600 / 2 powr (- 600) = 2 powr 1200"
    by simp
  have "ieee_divide (Finite (2 powr 600)) (Finite (2 powr (- 600))) = round_ieee (2 powr 600 / 2 powr (- 600))"
    by (rule ieee_divide_finite) simp_all
  then have d: "ieee_divide (Finite (2 powr 600)) (Finite (2 powr (- 600))) = Plus_infinity"
    by (simp only: q round_ieee_overflow)
  have t: "ieee_times Plus_infinity (Finite (2 powr (- 600))) = Plus_infinity"
    by (simp add: ieee_times_def is_infinite_def is_zero_def signed_infinity_def)
  show ?thesis
    by transfer (simp only: a b d t finite_value_ieee.simps)
qed

lemma round_ieee_of_int:
  assumes "\<bar>n\<bar> < 2 ^ 53"
  shows "round_ieee (of_int n) = Finite (of_int n)"
proof (cases "n = 0")
  case True
  then show ?thesis by (simp add: round_ieee_def)
next
  case False
  define e where "e = \<lfloor>log 2 \<bar>of_int n :: real\<bar>\<rfloor>"
  from False have "1 \<le> \<bar>n\<bar>" by simp
  then have one: "1 \<le> \<bar>of_int n :: real\<bar>"
    by (metis of_int_1_le_iff of_int_abs)
  from assms have lt53: "\<bar>of_int n :: real\<bar> < 2 ^ 53"
    by (metis of_int_abs of_int_less_numeral_power_cancel_iff)
  then have lt: "\<bar>of_int n :: real\<bar> < 2 powr 53"
    by simp
  from one have "0 \<le> log 2 \<bar>of_int n :: real\<bar>"
    by simp
  then have e0: "0 \<le> e"
    by (simp add: e_def)
  from one lt have "log 2 \<bar>of_int n :: real\<bar> < 53"
    by (subst log_less_iff) simp_all
  then have e52: "e \<le> 52"
    unfolding e_def by linarith
  from e0 have b: "binade (of_int n) = e"
    by (simp add: binade_def e_def)
  define k where "k = nat (52 - e)"
  from e52 have ek: "real_of_int e - 52 = - real k"
    by (simp add: k_def)
  then have s: "(2::real) powr (of_int e - 52) = 1 / 2 ^ k"
    by (simp add: powr_minus powr_realpow inverse_eq_divide)
  have "real_of_int n / (1 / 2 ^ k) = of_int (n * 2 ^ k)"
    by simp
  then have "round_to_even (real_of_int n / (1 / 2 ^ k)) = n * 2 ^ k"
    by (simp only: round_to_even_of_int)
  then have r: "round_real (of_int n) = of_int n"
    by (simp add: round_real_def Let_def b s)
  have "(2::real) powr 53 \<le> 2 powr 1024"
    by (intro powr_mono) simp_all
  with lt have "\<bar>of_int n :: real\<bar> < 2 powr 1024"
    by (rule less_le_trans)
  with False show ?thesis
    unfolding round_ieee_def Let_def r by simp
qed

lemma finite_value_of_int:
  assumes "\<bar>n\<bar> < 2 ^ 53"
  shows "finite_value (double_of_real (of_int n)) = Some (of_int n)"
  using assms by transfer (simp add: round_ieee_of_int)

lemma normal_range_examples:
  "2 powr (- 1022) \<le> \<bar>6::real\<bar>" "\<bar>6::real\<bar> \<le> 2 powr 1023"
  "2 powr (- 1022) \<le> \<bar>6 / 3 :: real\<bar>" "\<bar>6 / 3 :: real\<bar> \<le> 2 powr 1023"
  "2 powr (- 1021) \<le> (2::real)" "(2::real) \<le> 2 powr 1022"
  "2 powr (- 1022) \<le> (2::real) powr of_int 3" "(2::real) powr of_int 3 \<le> 2 powr 1023"
proof -
  have lo: "(2::real) powr (- 1022) \<le> 1"
    using powr_mono [of "- 1022" 0 "2::real"] by simp
  have lo': "(2::real) powr (- 1021) \<le> 1"
    using powr_mono [of "- 1021" 0 "2::real"] by simp
  have hi: "(8::real) \<le> 2 powr 1022"
    using powr_mono [of 3 1022 "2::real"] by simp
  have hi': "(2::real) powr 1022 \<le> 2 powr 1023"
    by (intro powr_mono) simp_all
  have e: "(2::real) powr of_int 3 = 8"
    by simp
  show "2 powr (- 1022) \<le> \<bar>6::real\<bar>" "\<bar>6::real\<bar> \<le> 2 powr 1023"
    "2 powr (- 1022) \<le> \<bar>6 / 3 :: real\<bar>" "\<bar>6 / 3 :: real\<bar> \<le> 2 powr 1023"
    "2 powr (- 1021) \<le> (2::real)" "(2::real) \<le> 2 powr 1022"
    using lo lo' hi hi' by linarith+
  show "2 powr (- 1022) \<le> (2::real) powr of_int 3" "(2::real) powr of_int 3 \<le> 2 powr 1023"
    unfolding e using lo hi hi' by linarith+
qed

text \<open>C1, as amended. For all quantities \<open>a\<close> and \<open>b\<close>, the product \<^verbatim>\<open>a * b\<close> has the
  component-wise sum of the two dimension vectors and the value \<^verbatim>\<open>a.val() * b.val()\<close>; the
  quotient \<^verbatim>\<open>a / b\<close> has the component-wise difference and the value
  \<^verbatim>\<open>a.val() / b.val()\<close>; \<^verbatim>\<open>(a / b) * b\<close> has the type of \<open>a\<close>; and when both values are finite,
  \<open>b\<close>'s is not zero, and \<open>a\<close>'s is zero or the magnitudes of \<open>a\<close>'s value and of the exact
  quotient of the two values both lie between \<open>2 powr (-1022)\<close> and \<open>2 powr 1023\<close>, the
  value of \<^verbatim>\<open>(a / b) * b\<close> is finite and within the relative tolerance \<open>1 / 2 ^ 51\<close> of
  \<open>a\<close>'s. The numbers are binary64 doubles. The first four parts hold for every number
  type (\<open>dims_op_mul\<close>, \<open>val_op_mul\<close>, \<open>dims_op_div\<close>, \<open>val_op_div\<close>), and in exact arithmetic,
  over any field, the round trip gives \<open>a\<close> itself (\<open>multiply_divide_exact\<close>).\<close>

theorem multiply_divide_closure:
  fixes a b :: "double quantity"
  shows "dims (op_mul a b) =
           \<lparr>mass = mass (dims a) + mass (dims b),
            length_dim = length_dim (dims a) + length_dim (dims b),
            time = time (dims a) + time (dims b),
            current = current (dims a) + current (dims b),
            angle = angle (dims a) + angle (dims b),
            temperature = temperature (dims a) + temperature (dims b),
            luminosity = luminosity (dims a) + luminosity (dims b),
            moles = moles (dims a) + moles (dims b)\<rparr>
       \<and> val (op_mul a b) = val a * val b
       \<and> dims (op_div a b) =
           \<lparr>mass = mass (dims a) - mass (dims b),
            length_dim = length_dim (dims a) - length_dim (dims b),
            time = time (dims a) - time (dims b),
            current = current (dims a) - current (dims b),
            angle = angle (dims a) - angle (dims b),
            temperature = temperature (dims a) - temperature (dims b),
            luminosity = luminosity (dims a) - luminosity (dims b),
            moles = moles (dims a) - moles (dims b)\<rparr>
       \<and> val (op_div a b) = val a / val b
       \<and> dims (op_mul (op_div a b) b) = dims a
       \<and> (\<forall>x y. finite_value (val a) = Some x \<and> finite_value (val b) = Some y \<and> y \<noteq> 0 \<and>
                 (x = 0 \<or> (2 powr (- 1022) \<le> \<bar>x\<bar> \<and> \<bar>x\<bar> \<le> 2 powr 1023 \<and>
                            2 powr (- 1022) \<le> \<bar>x / y\<bar> \<and> \<bar>x / y\<bar> \<le> 2 powr 1023)) \<longrightarrow>
            (\<exists>r. finite_value (val (op_mul (op_div a b) b)) = Some r \<and> \<bar>r - x\<bar> \<le> \<bar>x\<bar> / 2 ^ 51))"
proof -
  have "\<exists>r. finite_value (val (op_mul (op_div a b) b)) = Some r \<and> \<bar>r - x\<bar> \<le> \<bar>x\<bar> / 2 ^ 51"
    if "finite_value (val a) = Some x" and "finite_value (val b) = Some y" and "y \<noteq> 0"
      and "x = 0 \<or> (2 powr (- 1022) \<le> \<bar>x\<bar> \<and> \<bar>x\<bar> \<le> 2 powr 1023 \<and>
                    2 powr (- 1022) \<le> \<bar>x / y\<bar> \<and> \<bar>x / y\<bar> \<le> 2 powr 1023)" for x y
  proof -
    from that have "\<exists>r. finite_value (val a / val b * val b) = Some r \<and> \<bar>r - x\<bar> \<le> \<bar>x\<bar> / 2 ^ 51"
      by (rule double_round_trip)
    then show ?thesis
      by (simp only: val_op_mul val_op_div)
  qed
  then have "\<forall>x y. finite_value (val a) = Some x \<and> finite_value (val b) = Some y \<and> y \<noteq> 0 \<and>
                 (x = 0 \<or> (2 powr (- 1022) \<le> \<bar>x\<bar> \<and> \<bar>x\<bar> \<le> 2 powr 1023 \<and>
                            2 powr (- 1022) \<le> \<bar>x / y\<bar> \<and> \<bar>x / y\<bar> \<le> 2 powr 1023)) \<longrightarrow>
            (\<exists>r. finite_value (val (op_mul (op_div a b) b)) = Some r \<and> \<bar>r - x\<bar> \<le> \<bar>x\<bar> / 2 ^ 51)"
    by blast
  moreover have "dims (op_mul a b) =
           \<lparr>mass = mass (dims a) + mass (dims b),
            length_dim = length_dim (dims a) + length_dim (dims b),
            time = time (dims a) + time (dims b),
            current = current (dims a) + current (dims b),
            angle = angle (dims a) + angle (dims b),
            temperature = temperature (dims a) + temperature (dims b),
            luminosity = luminosity (dims a) + luminosity (dims b),
            moles = moles (dims a) + moles (dims b)\<rparr>"
    by (simp add: QMultiplication_def)
  moreover have "dims (op_div a b) =
           \<lparr>mass = mass (dims a) - mass (dims b),
            length_dim = length_dim (dims a) - length_dim (dims b),
            time = time (dims a) - time (dims b),
            current = current (dims a) - current (dims b),
            angle = angle (dims a) - angle (dims b),
            temperature = temperature (dims a) - temperature (dims b),
            luminosity = luminosity (dims a) - luminosity (dims b),
            moles = moles (dims a) - moles (dims b)\<rparr>"
    by (simp add: QDivision_def)
  moreover have "val (op_mul a b) = val a * val b" and "val (op_div a b) = val a / val b"
    and "dims (op_mul (op_div a b) b) = dims a"
    by simp_all
  ultimately show ?thesis
    by (intro conjI)
qed

text \<open>The theorem at \<^verbatim>\<open>6_N\<close> and \<^verbatim>\<open>3_m\<close>: both values are finite, 6 and the quotient 2 are
  normal numbers, the round trip has the type \<^verbatim>\<open>Force\<close>, and its value is within the
  tolerance of 6.\<close>

theorem multiply_divide_closure_witness:
  "finite_value (val (Quantity Force (double_of_real 6))) = Some 6
   \<and> finite_value (val (Quantity Length (double_of_real 3))) = Some 3
   \<and> dims (op_mul (op_div (Quantity Force (double_of_real 6)) (Quantity Length (double_of_real 3)))
        (Quantity Length (double_of_real 3))) = Force
   \<and> (\<exists>r. finite_value (val (op_mul
          (op_div (Quantity Force (double_of_real 6)) (Quantity Length (double_of_real 3)))
          (Quantity Length (double_of_real 3)))) = Some r
        \<and> \<bar>r - 6\<bar> \<le> \<bar>6\<bar> / 2 ^ 51)"
proof -
  let ?a = "Quantity Force (double_of_real 6)"
  let ?b = "Quantity Length (double_of_real 3)"
  have a: "finite_value (val ?a) = Some 6"
    using finite_value_of_int [of 6] by simp
  have b: "finite_value (val ?b) = Some 3"
    using finite_value_of_int [of 3] by simp
  have nz: "(3::real) \<noteq> 0"
    by simp
  from multiply_divide_closure [of ?a ?b]
  have d: "dims (op_mul (op_div ?a ?b) ?b) = dims ?a"
    and "finite_value (val ?a) = Some 6 \<and> finite_value (val ?b) = Some 3 \<and> (3::real) \<noteq> 0 \<and>
         ((6::real) = 0 \<or> (2 powr (- 1022) \<le> \<bar>6::real\<bar> \<and> \<bar>6::real\<bar> \<le> 2 powr 1023 \<and>
                    2 powr (- 1022) \<le> \<bar>6 / 3 :: real\<bar> \<and> \<bar>6 / 3 :: real\<bar> \<le> 2 powr 1023)) \<longrightarrow>
         (\<exists>r. finite_value (val (op_mul (op_div ?a ?b) ?b)) = Some r \<and> \<bar>r - 6\<bar> \<le> \<bar>6\<bar> / 2 ^ 51)"
    by blast+
  with a b nz normal_range_examples(1-4)
  have e: "\<exists>r. finite_value (val (op_mul (op_div ?a ?b) ?b)) = Some r \<and> \<bar>r - 6\<bar> \<le> \<bar>6\<bar> / 2 ^ 51"
    by blast
  have "dims ?a = Force" by simp
  with d have d': "dims (op_mul (op_div ?a ?b) ?b) = Force" by (rule trans)
  from a b d' e show ?thesis by (intro conjI)
qed

text \<open>C1, as stated, asks the round trip of every \<open>b\<close> whose value is not zero. The values
  \<open>2 powr (-540)\<close> and \<open>2 powr 540\<close> are doubles; their quotient \<open>2 powr (-1080)\<close> is less
  than half the least subnormal number and rounds to zero, so \<^verbatim>\<open>(a / b) * b\<close> has the
  value 0, which is not near \<open>2 powr (-540)\<close> in any relative tolerance. And for
  \<open>2 powr 600\<close> and \<open>2 powr (-600)\<close> the quotient \<open>2 powr 1200\<close> overflows: \<^verbatim>\<open>a / b\<close> is an
  infinity and so is \<^verbatim>\<open>(a / b) * b\<close>.\<close>

theorem quotient_out_of_range:
  "finite_value (val (Quantity Length (double_of_real (2 powr (- 540))))) = Some (2 powr (- 540))
   \<and> finite_value (val (Quantity Area (double_of_real (2 powr 540)))) = Some (2 powr 540)
   \<and> finite_value (val (op_mul
        (op_div (Quantity Length (double_of_real (2 powr (- 540))))
                (Quantity Area (double_of_real (2 powr 540))))
        (Quantity Area (double_of_real (2 powr 540))))) = Some 0
   \<and> finite_value (val (Quantity Length (double_of_real (2 powr 600)))) = Some (2 powr 600)
   \<and> finite_value (val (Quantity Area (double_of_real (2 powr (- 600))))) = Some (2 powr (- 600))
   \<and> finite_value (val (op_mul
        (op_div (Quantity Length (double_of_real (2 powr 600)))
                (Quantity Area (double_of_real (2 powr (- 600)))))
        (Quantity Area (double_of_real (2 powr (- 600)))))) = None"
proof -
  have "finite_value (double_of_real (2 powr (- 540))) = Some (2 powr (- 540))"
    using finite_value_double_of_real_pow2 [of "- 540" 1] by simp
  moreover have "finite_value (double_of_real (2 powr 540)) = Some (2 powr 540)"
    using finite_value_double_of_real_pow2 [of 540 1] by simp
  moreover have "finite_value (double_of_real (2 powr 600)) = Some (2 powr 600)"
    using finite_value_double_of_real_pow2 [of 600 1] by simp
  moreover have "finite_value (double_of_real (2 powr (- 600))) = Some (2 powr (- 600))"
    using finite_value_double_of_real_pow2 [of "- 600" 1] by simp
  ultimately show ?thesis
    by (simp only: val_Quantity val_op_mul val_op_div quotient_underflows quotient_overflows simp_thms)
qed

section \<open>Compound assignment\<close>

lemma op_minus_assign_unchanged: "dims r = dims q \<Longrightarrow> op_minus_assign q r = Inr q"
  by (simp add: op_minus_assign_def as_type_def)

lemma op_plus_assign_adds:
  "dims r = dims q \<Longrightarrow> op_plus_assign q r = Inr (Quantity (dims q) (val q + val r))"
  by (simp add: op_plus_assign_def as_type_def Quantity_def)

text \<open>C2. The claim is that \<^verbatim>\<open>q -= r\<close> leaves in \<open>q\<close> its previous value minus \<open>r\<close>'s.
  The code does not do so: for \<^verbatim>\<open>q = 5_m\<close> and \<^verbatim>\<open>r = 2_m\<close> the object after \<^verbatim>\<open>q -= r\<close>
  still holds 5, not 3 (by \<open>op_minus_assign_unchanged\<close> it is unchanged for every \<open>q\<close> and
  \<open>r\<close> of one type), while \<^verbatim>\<open>q += r\<close> on the same operands holds 7.\<close>

theorem minus_assign_keeps_value:
  "op_minus_assign (Quantity Length (5::real)) (Quantity Length 2) = Inr (Quantity Length 5)
   \<and> op_plus_assign (Quantity Length (5::real)) (Quantity Length 2) = Inr (Quantity Length 7)"
  by (simp add: op_minus_assign_def op_plus_assign_def as_type_def Quantity_def)

section \<open>Assignment of a double\<close>

text \<open>C6. \<^verbatim>\<open>q = d\<close> for a \<^verbatim>\<open>double\<close> \<open>d\<close> is accepted exactly when each of the eight
  exponents of \<open>q\<close>'s type is zero, and an accepted assignment leaves \<open>d\<close> itself as the
  stored value (and the type as it was).\<close>

theorem assign_double_iff_dimensionless:
  "(\<exists>q'. op_assign_double q d = Inr q') =
     (mass (dims q) = 0 \<and> length_dim (dims q) = 0 \<and> time (dims q) = 0 \<and> current (dims q) = 0 \<and>
      angle (dims q) = 0 \<and> temperature (dims q) = 0 \<and> luminosity (dims q) = 0 \<and> moles (dims q) = 0)
   \<and> (\<forall>q'. op_assign_double q d = Inr q' \<longrightarrow> val q' = d \<and> dims q' = dims q)"
  by (auto simp add: op_assign_double_def)

text \<open>The theorem at a \<^verbatim>\<open>Number\<close>, where the assignment is accepted and stores 7; at a
  \<^verbatim>\<open>Length\<close> the \<^verbatim>\<open>static_assert\<close> fails.\<close>

theorem assign_double_iff_dimensionless_witness:
  "op_assign_double (Quantity Number (1::real)) 7 = Inr (Quantity Number 7)
   \<and> val (Quantity Number (7::real)) = 7
   \<and> op_assign_double (Quantity Length (1::real)) 7 = Inl Static_assertion"
proof -
  have a: "op_assign_double (Quantity Number (1::real)) 7 = Inr (Quantity Number 7)"
    by (simp add: op_assign_double_def Number_def NEW_QUANTITY_def Quantity_def)
  have b: "op_assign_double (Quantity Length (1::real)) 7 = Inl Static_assertion"
    by (simp add: op_assign_double_def Length_def NEW_QUANTITY_def Quantity_def)
  from assign_double_iff_dimensionless [of "Quantity Number (1::real)" 7] a
  have "val (Quantity Number (7::real)) = 7" by blast
  with a b show ?thesis by simp
qed

section \<open>Sign\<close>

text \<open>C10. \<^verbatim>\<open>units::sgn(q)\<close> is -1 when \<^verbatim>\<open>q.val() < 0\<close> and 1 otherwise; for a quantity
  whose value is zero it is 1, and it is never 0. The number type is any ordered type in
  which nothing is less than itself.\<close>

theorem sgn_values:
  fixes q :: "('a::{zero,preorder}) quantity"
  shows "(val q < 0 \<longrightarrow> units_sgn q = - 1) \<and> (\<not> val q < 0 \<longrightarrow> units_sgn q = 1)
       \<and> (val q = 0 \<longrightarrow> units_sgn q = 1) \<and> units_sgn q \<noteq> 0"
  by (simp add: units_sgn_def)

text \<open>The theorem at \<^verbatim>\<open>-3_m\<close>, \<^verbatim>\<open>0_m\<close> and \<^verbatim>\<open>2_m\<close>.\<close>

theorem sgn_values_witness:
  "val (Quantity Length (- 3 :: real)) < 0 \<and> units_sgn (Quantity Length (- 3 :: real)) = - 1
   \<and> val (Quantity Length (0 :: real)) = 0 \<and> units_sgn (Quantity Length (0 :: real)) = 1
   \<and> \<not> val (Quantity Length (2 :: real)) < 0 \<and> units_sgn (Quantity Length (2 :: real)) = 1"
  using sgn_values [of "Quantity Length (- 3 :: real)"] sgn_values [of "Quantity Length (0 :: real)"]
    sgn_values [of "Quantity Length (2 :: real)"]
  by simp

section \<open>Angular and linear quantities\<close>

lemma angle_length_exchanged_twice: "angle_length_exchanged (angle_length_exchanged Q) = Q"
  by (simp add: angle_length_exchanged_def)

lemma as_type_same [simp]: "dims q = Q \<Longrightarrow> as_type Q q = Inr q"
  by (auto simp add: as_type_def)

lemma as_type_other [simp]: "dims q \<noteq> Q \<Longrightarrow> as_type Q q = Inl No_match"
  by (simp add: as_type_def)

text \<open>C7. For an argument of the named type \<^verbatim>\<open>Q\<close> and a diameter of type \<^verbatim>\<open>Length\<close>,
  \<^verbatim>\<open>toLinear\<close> returns the value times \<^verbatim>\<open>diameter.val() / 2\<close> and \<^verbatim>\<open>toAngular\<close> the value
  divided by \<^verbatim>\<open>diameter.val() / 2\<close>. Both results have the argument's dimension vector with
  the length and angle exponents exchanged and the six others kept; exchanging twice gives
  the vector back (\<open>angle_length_exchanged_twice\<close>), so the one exchange serves both
  directions. The number type is any type with the operators used.\<close>

theorem toLinear_toAngular_values:
  fixes q :: "('a::{times,inverse,numeral}) quantity"
  assumes "dims q = Q" and "dims diameter = Length"
  shows "toLinear Q q diameter =
           Inr (Quantity (angle_length_exchanged Q) (val q * (val diameter / 2)))
       \<and> toAngular Q q diameter =
           Inr (Quantity (angle_length_exchanged Q) (val q / (val diameter / 2)))
       \<and> length_dim (angle_length_exchanged Q) = angle Q
       \<and> angle (angle_length_exchanged Q) = length_dim Q
       \<and> mass (angle_length_exchanged Q) = mass Q
       \<and> time (angle_length_exchanged Q) = time Q
       \<and> current (angle_length_exchanged Q) = current Q
       \<and> temperature (angle_length_exchanged Q) = temperature Q
       \<and> luminosity (angle_length_exchanged Q) = luminosity Q
       \<and> moles (angle_length_exchanged Q) = moles Q"
  using assms
  by (simp add: toLinear_def toAngular_def unit_cast_def op_mul_def op_div_def op_div_double_def
      angle_length_exchanged_def)

text \<open>The theorem at an angular velocity of 3 (time exponent -1, angle exponent 1) and a
  diameter of \<^verbatim>\<open>4_m\<close>: \<^verbatim>\<open>toLinear\<close> gives the \<^verbatim>\<open>LinearVelocity\<close> 6, and \<^verbatim>\<open>toAngular\<close>
  takes that back to the angular velocity 3.\<close>

theorem toLinear_toAngular_values_witness:
  "dims (Quantity (NEW_QUANTITY 0 0 (- 1) 0 1 0 0 0) (3::real)) = NEW_QUANTITY 0 0 (- 1) 0 1 0 0 0
   \<and> dims (Quantity Length (4::real)) = Length
   \<and> toLinear (NEW_QUANTITY 0 0 (- 1) 0 1 0 0 0)
        (Quantity (NEW_QUANTITY 0 0 (- 1) 0 1 0 0 0) (3::real)) (Quantity Length 4)
      = Inr (Quantity LinearVelocity 6)
   \<and> toAngular LinearVelocity (Quantity LinearVelocity (6::real)) (Quantity Length 4)
      = Inr (Quantity (NEW_QUANTITY 0 0 (- 1) 0 1 0 0 0) 3)"
proof -
  have e1: "angle_length_exchanged (NEW_QUANTITY 0 0 (- 1) 0 1 0 0 0) = LinearVelocity"
    by (simp add: angle_length_exchanged_def NEW_QUANTITY_def LinearVelocity_def)
  have e2: "angle_length_exchanged LinearVelocity = NEW_QUANTITY 0 0 (- 1) 0 1 0 0 0"
    by (simp add: angle_length_exchanged_def NEW_QUANTITY_def LinearVelocity_def)
  from toLinear_toAngular_values
    [of "Quantity (NEW_QUANTITY 0 0 (- 1) 0 1 0 0 0) (3::real)" "NEW_QUANTITY 0 0 (- 1) 0 1 0 0 0"
        "Quantity Length (4::real)"]
  have l: "toLinear (NEW_QUANTITY 0 0 (- 1) 0 1 0 0 0)
        (Quantity (NEW_QUANTITY 0 0 (- 1) 0 1 0 0 0) (3::real)) (Quantity Length 4)
      = Inr (Quantity LinearVelocity 6)"
    by (simp add: e1)
  from toLinear_toAngular_values
    [of "Quantity LinearVelocity (6::real)" LinearVelocity "Quantity Length (4::real)"]
  have a: "toAngular LinearVelocity (Quantity LinearVelocity (6::real)) (Quantity Length 4)
      = Inr (Quantity (NEW_QUANTITY 0 0 (- 1) 0 1 0 0 0) 3)"
    by (simp add: e2)
  from l a show ?thesis by simp
qed

section \<open>Magnitude\<close>

lemma QRoot_QPower [simp]: "n \<noteq> 0 \<Longrightarrow> QRoot (QPower D n) n = Inr D"
  by (simp add: QRoot_def QPower_def)

lemma units_square_nonneg:
  "0 \<le> val q \<Longrightarrow> units_square q = Inr (Quantity (QPower (dims q) 2) (sqrt (val q)))"
  by (simp add: units_square_def std_sqrt_def)

lemma units_square_negative: "val q < 0 \<Longrightarrow> units_square q = Inl Not_finite"
  by (simp add: units_square_def std_sqrt_def)

lemma units_sqrt_nonneg:
  "0 \<le> v \<Longrightarrow> units_sqrt (Quantity (QPower D 2) v) = Inr (Quantity D (sqrt v))"
  by (simp add: units_sqrt_def std_sqrt_def)

lemma magnitude_value:
  assumes "Vector3D_of T v"
    and "0 \<le> val (v_x v)" and "0 \<le> val (v_y v)" and "0 \<le> val (v_z v)"
  shows "magnitude T v =
    Inr (Quantity T (sqrt (sqrt (val (v_x v)) + sqrt (val (v_y v)) + sqrt (val (v_z v)))))"
proof -
  from assms(1) have d: "dims (v_x v) = T" "dims (v_y v) = T" "dims (v_z v) = T"
    by (simp_all add: Vector3D_of_def)
  have nn: "0 \<le> sqrt (val (v_x v)) + sqrt (val (v_y v)) + sqrt (val (v_z v))"
    using assms(2-4) by simp
  show ?thesis
    using assms(2-4) d nn
    by (simp add: magnitude_def units_square_nonneg op_add_def units_sqrt_nonneg)
qed

lemma magnitude_negative:
  assumes "Vector3D_of T v"
    and "val (v_x v) < 0 \<or> val (v_y v) < 0 \<or> val (v_z v) < 0"
  shows "magnitude T v = Inl Not_finite"
proof -
  have sq: "units_square q = Inl Not_finite \<or> (\<exists>s. units_square q = Inr s)" for q
    by (simp add: units_square_def std_sqrt_def)
  from assms(2) show ?thesis
  proof (elim disjE)
    assume "val (v_x v) < 0"
    then show ?thesis by (simp add: magnitude_def units_square_negative)
  next
    assume "val (v_y v) < 0"
    then have "units_square (v_y v) = Inl Not_finite" by (rule units_square_negative)
    with sq [of "v_x v"] show ?thesis by (auto simp add: magnitude_def)
  next
    assume "val (v_z v) < 0"
    then have "units_square (v_z v) = Inl Not_finite" by (rule units_square_negative)
    with sq [of "v_x v"] sq [of "v_y v"] show ?thesis by (auto simp add: magnitude_def)
  qed
qed

text \<open>C3. The claim is that \<^verbatim>\<open>v.magnitude()\<close> has the type \<^verbatim>\<open>T\<close> and the value
  \<open>sqrt (x\<^sup>2 + y\<^sup>2 + z\<^sup>2)\<close> of the three component values. The type is as claimed, the value
  is not: \<^verbatim>\<open>units::square\<close> takes a square root, so for components that are not negative
  the value is \<open>sqrt (sqrt x + sqrt y + sqrt z)\<close> (\<open>magnitude_value\<close>), and a negative
  component leaves no finite value (\<open>magnitude_negative\<close>). For the vector
  \<^verbatim>\<open>(16_m, 0_m, 0_m)\<close> the code returns \<^verbatim>\<open>2_m\<close>, and the Euclidean norm is 16.\<close>

theorem magnitude_of_16_0_0:
  "magnitude Length \<lparr>v_x = Quantity Length 16, v_y = Quantity Length 0, v_z = Quantity Length 0\<rparr>
     = Inr (Quantity Length 2)
   \<and> sqrt (16\<^sup>2 + 0\<^sup>2 + 0\<^sup>2) = (16::real)"
proof -
  have "magnitude Length \<lparr>v_x = Quantity Length 16, v_y = Quantity Length 0, v_z = Quantity Length 0\<rparr>
     = Inr (Quantity Length (sqrt (sqrt 16 + sqrt 0 + sqrt 0)))"
    by (simp add: magnitude_value Vector3D_of_def)
  then show ?thesis by simp
qed

section \<open>Roots of powers\<close>
















lemma ieee_one_half: "ieee_divide (Finite 1) (Finite 2) = Finite (1 / 2)"
proof -
  have "round_ieee (1 * 2 powr of_int (- 1)) = Finite (1 * 2 powr of_int (- 1))"
    by (rule round_ieee_pow2) simp_all
  then have h: "round_ieee (1 / 2) = Finite (1 / 2)"
    by (simp add: powr_minus_divide)
  have "ieee_divide (Finite 1) (Finite 2) = round_ieee (1 / 2)"
    by (rule ieee_divide_finite) simp_all
  with h show ?thesis
    by simp
qed


lemma round_ieee_small:
  "round_ieee 1 = Finite 1" "round_ieee 2 = Finite 2" "round_ieee 4 = Finite 4"
  "round_ieee (- 2) = Finite (- 2)"
  using round_ieee_of_int [of 1] round_ieee_of_int [of 2] round_ieee_of_int [of 4]
    round_ieee_of_int [of "- 2"]
  by simp_all


lemma ieee_pow_overflows:
  "ieee_pow (ieee_pow (Finite (2 powr 600)) (Finite 2)) (ieee_divide (Finite 1) (Finite 2))
     = Plus_infinity"
proof -
  have "((2::real) powr 600) powr 2 = 2 powr (600 * 2)"
    by (rule powr_powr)
  then have e: "((2::real) powr 600) powr 2 = 2 powr 1200"
    by simp
  have "(2::real) powr 0 < 2 powr 600"
    by (intro powr_less_mono) simp_all
  then have ne: "(2::real) powr 600 \<noteq> 1" and pos: "0 < (2::real) powr 600"
    by simp_all
  have "ieee_pow (Finite (2 powr 600)) (Finite 2) = pow_finite (2 powr 600) 2"
    using ne by (simp add: ieee_pow_def is_zero_def is_infinite_def)
  also have "\<dots> = round_ieee ((2 powr 600) powr 2)"
    using pos by (simp only: pow_finite_def if_True)
  also have "\<dots> = Plus_infinity"
    by (simp only: e round_ieee_overflow)
  finally have p: "ieee_pow (Finite (2 powr 600)) (Finite 2) = Plus_infinity" .
  show ?thesis
    unfolding p ieee_one_half
    by (simp add: ieee_pow_def is_zero_def is_infinite_def pow_infinite_base_def)
qed

text \<open>Nor does the claim hold of every positive value. For \<open>q\<close> of the value
  \<open>2 powr 600\<close> and \<open>N = 2\<close> the power \<open>2 powr 1200\<close> overflows: \<^verbatim>\<open>pow<2>(q)\<close> is an infinity,
  and so is its root.\<close>

lemma root_of_pow_overflows:
  "finite_value (double_of_real (2 powr 600)) = Some (2 powr 600)
   \<and> (\<exists>r. units_root std_pow_reference 2
            (units_pow std_pow_reference 2 (Quantity Length (double_of_real (2 powr 600)))) = Inr r
          \<and> finite_value (val r) = None)"
proof -
  have a: "round_ieee (2 powr 600) = Finite (2 powr 600)"
    using round_ieee_pow2 [of 600 1] by simp
  have v: "finite_value (double_of_real (2 powr 600)) = Some (2 powr 600)"
    using finite_value_double_of_real_pow2 [of 600 1] by simp
  have "finite_value (std_pow_reference (std_pow_reference (double_of_real (2 powr 600)) (double_of_real 2))
      (double_of_real 1 / double_of_real 2)) = None"
    by transfer (simp only: a round_ieee_small ieee_pow_overflows finite_value_ieee.simps)
  moreover have "QRoot (QPower Length 2) 2 = Inr Length"
    by simp
  ultimately have "\<exists>r. units_root std_pow_reference 2
            (units_pow std_pow_reference 2 (Quantity Length (double_of_real (2 powr 600)))) = Inr r
          \<and> finite_value (val r) = None"
    by (simp add: units_root_def units_pow_def)
  with v show ?thesis
    by (rule conjI)
qed

section \<open>Vectors from polar form\<close>

lemma fromPolar_without_abs_member:
  "fromPolar (\<lambda>m. Inl No_match) cos_angle T t m = Inl No_match"
  by (simp add: fromPolar_def as_type_def)

lemma theta_of_16_0_0:
  assumes "\<forall>q. 1 < \<bar>val q\<bar> \<longrightarrow> acos_number q = Inl Not_finite"
  shows "theta acos_number Length
     \<lparr>v_x = Quantity Length 16, v_y = Quantity Length 0, v_z = Quantity Length 0\<rparr> = Inl Not_finite"
proof -
  have m: "magnitude Length \<lparr>v_x = Quantity Length 16, v_y = Quantity Length 0, v_z = Quantity Length 0\<rparr>
     = Inr (Quantity Length 2)"
    by (simp add: magnitude_value Vector3D_of_def)
  have "val (op_div (Quantity Length 16) (Quantity Length (2::real))) = 8" by simp
  with assms have "acos_number (op_div (Quantity Length 16) (Quantity Length 2)) = Inl Not_finite"
    by simp
  with m show ?thesis by (simp add: theta_def)
qed

text \<open>C4. The claim is that \<^verbatim>\<open>fromPolar(v.theta(), v.magnitude())\<close> gives the components
  of \<open>v\<close> again. For \<^verbatim>\<open>v = (16_m, 0_m, 0_m)\<close> it cannot: \<^verbatim>\<open>v.magnitude()\<close> is \<^verbatim>\<open>2_m\<close>,
  so whatever angles \<open>t\<close> are passed, whenever \<^verbatim>\<open>cos\<close> stays within \<open>[-1, 1]\<close> and
  \<^verbatim>\<open>m.abs()\<close> keeps the absolute value of \<open>m\<close>, a vector returned by
  \<^verbatim>\<open>fromPolar(t, v.magnitude())\<close> has an x component of absolute value at most 2 and is
  not \<open>v\<close>. With the class \<^verbatim>\<open>Quantity\<close> as declared, where \<^verbatim>\<open>m.abs()\<close> names no member,
  \<^verbatim>\<open>fromPolar\<close> returns nothing at all (\<open>fromPolar_without_abs_member\<close>).\<close>

theorem fromPolar_of_magnitude_bounded:
  fixes cos_angle abs_member :: "real quantity \<Rightarrow> failure + real quantity"
  assumes cos_range: "\<forall>a c. cos_angle a = Inr c \<longrightarrow> \<bar>val c\<bar> \<le> 1"
    and abs_val: "\<forall>m a. abs_member m = Inr a \<longrightarrow> \<bar>val a\<bar> = \<bar>val m\<bar>"
    and result: "and_then
        (magnitude Length \<lparr>v_x = Quantity Length 16, v_y = Quantity Length 0, v_z = Quantity Length 0\<rparr>)
        (fromPolar abs_member cos_angle Length t) = Inr r"
  shows "\<bar>val (v_x r)\<bar> \<le> 2
       \<and> r \<noteq> \<lparr>v_x = Quantity Length 16, v_y = Quantity Length 0, v_z = Quantity Length 0\<rparr>"
proof -
  have mag: "magnitude Length \<lparr>v_x = Quantity Length 16, v_y = Quantity Length 0, v_z = Quantity Length 0\<rparr>
     = Inr (Quantity Length 2)"
    by (simp add: magnitude_value Vector3D_of_def)
  from result mag have fp: "fromPolar abs_member cos_angle Length t (Quantity Length 2) = Inr r"
    by simp
  then obtain a cx where a: "abs_member (Quantity Length 2) = Inr a"
    and cx: "cos_angle (v_x t) = Inr cx"
    and rx: "val (v_x r) = val a * val cx"
    by (auto simp add: fromPolar_def Vector3D_def as_type_def and_then_def
        split: sum.splits if_splits)
  from abs_val a have "\<bar>val a\<bar> = 2" by fastforce
  moreover from cos_range cx have "\<bar>val cx\<bar> \<le> 1" by blast
  ultimately have "\<bar>val a * val cx\<bar> \<le> 2 * 1"
    unfolding abs_mult by (intro mult_mono) simp_all
  with rx have b: "\<bar>val (v_x r)\<bar> \<le> 2" by simp
  then have "r \<noteq> \<lparr>v_x = Quantity Length 16, v_y = Quantity Length 0, v_z = Quantity Length 0\<rparr>"
    by auto
  with b show ?thesis by simp
qed

text \<open>The theorem with \<^verbatim>\<open>m.abs()\<close> read as the absolute value, \<^verbatim>\<open>cos\<close> as the cosine of the
  stored angle, and the three angles zero: the vector returned is \<^verbatim>\<open>(2_m, 2_m, 2_m)\<close>.\<close>

theorem fromPolar_of_magnitude_bounded_witness:
  "and_then
     (magnitude Length \<lparr>v_x = Quantity Length 16, v_y = Quantity Length 0, v_z = Quantity Length 0\<rparr>)
     (fromPolar (\<lambda>m. Inr (Quantity (dims m) \<bar>val m\<bar>)) (\<lambda>a. Inr (Quantity Number (cos (val a))))
        Length
        \<lparr>v_x = Quantity (NEW_QUANTITY 0 0 0 0 1 0 0 0) 0, v_y = Quantity (NEW_QUANTITY 0 0 0 0 1 0 0 0) 0,
         v_z = Quantity (NEW_QUANTITY 0 0 0 0 1 0 0 0) 0\<rparr>)
     = Inr \<lparr>v_x = Quantity Length 2, v_y = Quantity Length 2, v_z = Quantity Length 2\<rparr>
   \<and> \<bar>val (v_x \<lparr>v_x = Quantity Length (2::real), v_y = Quantity Length 2, v_z = Quantity Length 2\<rparr>)\<bar> \<le> 2
   \<and> \<lparr>v_x = Quantity Length (2::real), v_y = Quantity Length 2, v_z = Quantity Length 2\<rparr>
       \<noteq> \<lparr>v_x = Quantity Length 16, v_y = Quantity Length 0, v_z = Quantity Length 0\<rparr>"
proof -
  let ?abs = "\<lambda>m :: real quantity. Inr (Quantity (dims m) \<bar>val m\<bar>) :: failure + real quantity"
  let ?cos = "\<lambda>a :: real quantity. Inr (Quantity Number (cos (val a))) :: failure + real quantity"
  have c: "\<forall>a c. ?cos a = Inr c \<longrightarrow> \<bar>val c\<bar> \<le> 1"
    by auto
  have a: "\<forall>m a. ?abs m = Inr a \<longrightarrow> \<bar>val a\<bar> = \<bar>val m\<bar>"
    by auto
  have m: "magnitude Length \<lparr>v_x = Quantity Length 16, v_y = Quantity Length 0, v_z = Quantity Length 0\<rparr>
     = Inr (Quantity Length 2)"
    by (simp add: magnitude_value Vector3D_of_def)
  have n: "QMultiplication Length Number = Length"
    by (simp add: QMultiplication_def Length_def Number_def NEW_QUANTITY_def)
  have r: "and_then
     (magnitude Length \<lparr>v_x = Quantity Length 16, v_y = Quantity Length 0, v_z = Quantity Length 0\<rparr>)
     (fromPolar ?abs ?cos Length
        \<lparr>v_x = Quantity (NEW_QUANTITY 0 0 0 0 1 0 0 0) 0, v_y = Quantity (NEW_QUANTITY 0 0 0 0 1 0 0 0) 0,
         v_z = Quantity (NEW_QUANTITY 0 0 0 0 1 0 0 0) 0\<rparr>)
     = Inr \<lparr>v_x = Quantity Length 2, v_y = Quantity Length 2, v_z = Quantity Length 2\<rparr>"
    by (simp add: m fromPolar_def Vector3D_def as_type_def op_mul_def n)
  from fromPolar_of_magnitude_bounded [OF c a r] r show ?thesis
    by blast
qed

section \<open>The vector between two points\<close>

lemma vec_minus_components:
  assumes "Vector3D_of T a" and "Vector3D_of T b"
  shows "vec_minus T b a =
    Inr \<lparr>v_x = Quantity T (val (v_x b) - val (v_x a)), v_y = Quantity T (val (v_y b) - val (v_y a)),
         v_z = Quantity T (val (v_z b) - val (v_z a))\<rparr>"
  using assms by (simp add: vec_minus_def Vector3D_of_def op_sub_def Vector3D_def as_type_def)

lemma vectorTo_is_Vector2D:
  assumes "Vector3D_of T a" and "Vector3D_of T b"
  shows "vectorTo Vector2D a b =
    Vector2D (Quantity T (val (v_x b) - val (v_x a))) (Quantity T (val (v_y b) - val (v_y a)))
      (Quantity T (val (v_z b) - val (v_z a)))"
  using assms by (simp add: vectorTo_def Vector3D_of_def op_sub_def)

text \<open>C8. The claim is that \<^verbatim>\<open>a.vectorTo(b)\<close> is the \<^verbatim>\<open>Vector3D<T>\<close> with the components
  \<open>b.x - a.x\<close>, \<open>b.y - a.y\<close> and \<open>b.z - a.z\<close>. The code computes the three differences and
  hands them to \<^verbatim>\<open>Vector2D<T>\<close>, not to the constructor of \<^verbatim>\<open>Vector3D<T>\<close>: for
  \<^verbatim>\<open>a = (1_m, 2_m, 3_m)\<close> and \<^verbatim>\<open>b = (4_m, 6_m, 8_m)\<close> the result is whatever \<^verbatim>\<open>Vector2D\<close>
  makes of \<^verbatim>\<open>(3_m, 4_m, 5_m)\<close>, while \<^verbatim>\<open>b - a\<close> is the vector the claim describes.\<close>

theorem vectorTo_builds_Vector2D:
  "vectorTo Vector2D
     \<lparr>v_x = Quantity Length (1::real), v_y = Quantity Length 2, v_z = Quantity Length 3\<rparr>
     \<lparr>v_x = Quantity Length 4, v_y = Quantity Length 6, v_z = Quantity Length 8\<rparr>
   = Vector2D (Quantity Length 3) (Quantity Length 4) (Quantity Length 5)
   \<and> vec_minus Length
     \<lparr>v_x = Quantity Length 4, v_y = Quantity Length 6, v_z = Quantity Length 8\<rparr>
     \<lparr>v_x = Quantity Length (1::real), v_y = Quantity Length 2, v_z = Quantity Length 3\<rparr>
   = Inr \<lparr>v_x = Quantity Length 3, v_y = Quantity Length 4, v_z = Quantity Length 5\<rparr>"
  by (simp add: vectorTo_def vec_minus_def op_sub_def Vector3D_def as_type_def)

end
